theory Spec2Isabelle
  imports Complex_Main
begin

section \<open>JavaScript values\<close>

text \<open>
  The proxy \<^verbatim>\<open>server.js\<close> handles JSON values and header, query and path strings.
  Strings are lists of code units; the model covers the code units below 256, on which
  \<open>length\<close> is JavaScript's \<^verbatim>\<open>.length\<close>. Numbers are carried through unchanged and only
  tested for zero, so they are modelled as reals. An object is the list of its own
  properties; a name is looked up from the front of the list. \<open>Undefined\<close> is the value of a missing
  property; it never comes out of a JSON parse, but it is stored in the objects that the
  projections build.
\<close>

datatype jsval =
    Undefined
  | Null
  | Bool bool
  | Num real
  | Str string
  | Arr "jsval list"
  | Obj "(string \<times> jsval) list"

text \<open>What a \<^verbatim>\<open>try\<close> block of the source can catch.\<close>

datatype exn =
    TypeError
  | FetchFailure string

text \<open>JavaScript truthiness, as used by \<^verbatim>\<open>!x\<close> and \<^verbatim>\<open>a || b\<close>.\<close>

fun truthy :: "jsval \<Rightarrow> bool" where
  "truthy Undefined = False"
| "truthy Null = False"
| "truthy (Bool b) = b"
| "truthy (Num n) = (n \<noteq> 0)"
| "truthy (Str s) = (s \<noteq> [])"
| "truthy (Arr xs) = True"
| "truthy (Obj fs) = True"

definition js_or :: "jsval \<Rightarrow> jsval \<Rightarrow> jsval" where
  "js_or a b = (if truthy a then a else b)"

text \<open>A string that may be \<^verbatim>\<open>undefined\<close> (a header, an environment variable, a path parameter).\<close>

definition of_opt :: "string option \<Rightarrow> jsval" where
  "of_opt v = (case v of None \<Rightarrow> Undefined | Some s \<Rightarrow> Str s)"

text \<open>
  Reading a data property \<^verbatim>\<open>x.name\<close>. On \<^verbatim>\<open>null\<close> and \<^verbatim>\<open>undefined\<close> the read throws a
  TypeError. An object parsed from JSON has own properties only. The source reads the names
  \<^verbatim>\<open>items\<close>, \<^verbatim>\<open>title\<close>, \<^verbatim>\<open>company_number\<close>, \<^verbatim>\<open>company_status\<close>, \<^verbatim>\<open>address_snippet\<close>,
  \<^verbatim>\<open>name\<close>, \<^verbatim>\<open>appointed_on\<close>, \<^verbatim>\<open>resigned_on\<close> and \<^verbatim>\<open>officer_role\<close>; none of them is
  defined on the prototypes of arrays, strings, numbers or booleans.
\<close>

fun getProp :: "jsval \<Rightarrow> string \<Rightarrow> exn + jsval" where
  "getProp Undefined name = Inl TypeError"
| "getProp Null name = Inl TypeError"
| "getProp (Obj fs) name = Inr (case map_of fs name of None \<Rightarrow> Undefined | Some v \<Rightarrow> v)"
| "getProp (Arr xs) name = Inr (if name = ''length'' then Num (real (length xs)) else Undefined)"
| "getProp (Str s) name = Inr (if name = ''length'' then Num (real (length s)) else Undefined)"
| "getProp (Num n) name = Inr Undefined"
| "getProp (Bool b) name = Inr Undefined"

text \<open>Sequencing of steps that may throw: the first exception ends the block.\<close>

definition andThen :: "exn + 'a \<Rightarrow> ('a \<Rightarrow> exn + 'b) \<Rightarrow> exn + 'b" where
  "andThen m f = (case m of Inl e \<Rightarrow> Inl e | Inr x \<Rightarrow> f x)"

fun mapE :: "('a \<Rightarrow> exn + 'b) \<Rightarrow> 'a list \<Rightarrow> exn + 'b list" where
  "mapE f [] = Inr []"
| "mapE f (x # xs) = andThen (f x) (\<lambda>y. andThen (mapE f xs) (\<lambda>ys. Inr (y # ys)))"

text \<open>
  The method call \<^verbatim>\<open>v.map(f)\<close> on a truthy value: only an array has a callable \<^verbatim>\<open>map\<close>;
  on a string, a number, a boolean or a parsed object the call throws a TypeError.
\<close>

fun js_map :: "(jsval \<Rightarrow> exn + jsval) \<Rightarrow> jsval \<Rightarrow> exn + jsval" where
  "js_map f (Arr xs) = andThen (mapE f xs) (\<lambda>ys. Inr (Arr ys))"
| "js_map f v = Inl TypeError"

section \<open>String helpers of the platform\<close>

text \<open>
  \<^verbatim>\<open>toLowerCase\<close> and \<^verbatim>\<open>toUpperCase\<close> on a header name. A header name is an HTTP token,
  made of ASCII characters: the model changes the ASCII letters and leaves every other
  code unit as it is.
\<close>

definition lower_char :: "char \<Rightarrow> char" where
  "lower_char c = (let n = (of_char c :: nat) in if 65 \<le> n \<and> n \<le> 90 then char_of (n + 32) else c)"

definition upper_char :: "char \<Rightarrow> char" where
  "upper_char c = (let n = (of_char c :: nat) in if 97 \<le> n \<and> n \<le> 122 then char_of (n - 32) else c)"

definition toLowerCase :: "string \<Rightarrow> string" where
  "toLowerCase s = map lower_char s"

definition toUpperCase :: "string \<Rightarrow> string" where
  "toUpperCase s = map upper_char s"

text \<open>\<^verbatim>\<open>s.split(',')\<close>: the empty string splits into one empty piece.\<close>

fun split_on :: "char \<Rightarrow> string \<Rightarrow> string list" where
  "split_on c [] = [[]]"
| "split_on c (x # xs) =
     (if x = c then [] # split_on c xs
      else (case split_on c xs of [] \<Rightarrow> [[x]] | w # ws \<Rightarrow> (x # w) # ws))"

definition is_space :: "char \<Rightarrow> bool" where
  "is_space c = ((of_char c :: nat) \<in> {9, 10, 11, 12, 13, 32, 160})"

definition trim :: "string \<Rightarrow> string" where
  "trim s = rev (dropWhile is_space (rev (dropWhile is_space s)))"

text \<open>The UTF-8 bytes of a string of code units below 256.\<close>

definition utf8 :: "string \<Rightarrow> nat list" where
  "utf8 s = concat (map (\<lambda>c. let n = (of_char c :: nat) in
                               if n < 128 then [n] else [192 + n div 64, 128 + n mod 64]) s)"

definition hex_digit :: "nat \<Rightarrow> char" where
  "hex_digit n = ''0123456789ABCDEF'' ! (n mod 16)"

definition unreserved :: "char \<Rightarrow> bool" where
  "unreserved c = (let n = (of_char c :: nat) in
     (65 \<le> n \<and> n \<le> 90) \<or> (97 \<le> n \<and> n \<le> 122) \<or> (48 \<le> n \<and> n \<le> 57) \<or> c \<in> set ''-_.!~*'()'')"

definition encodeURIComponent :: "string \<Rightarrow> string" where
  "encodeURIComponent s = concat (map (\<lambda>c.
     if unreserved c then [c]
     else concat (map (\<lambda>b. [CHR ''%'', hex_digit (b div 16), hex_digit b]) (utf8 [c]))) s)"

definition b64 :: "nat \<Rightarrow> char" where
  "b64 n = ''ABCDEFGHIJKLMNOPQRSTUVWXYZabcdefghijklmnopqrstuvwxyz0123456789+/'' ! (n mod 64)"

fun base64 :: "nat list \<Rightarrow> string" where
  "base64 [] = []"
| "base64 [a] = [b64 (a div 4), b64 ((a mod 4) * 16), CHR ''='', CHR ''='']"
| "base64 [a, b] =
     [b64 (a div 4), b64 ((a mod 4) * 16 + b div 16), b64 ((b mod 16) * 4), CHR ''='']"
| "base64 (a # b # c # rest) =
     [b64 (a div 4), b64 ((a mod 4) * 16 + b div 16), b64 ((b mod 16) * 4 + c div 64), b64 c]
     @ base64 rest"

section \<open>Configuration\<close>

text \<open>
  The constants read from \<^verbatim>\<open>process.env\<close> when the module is loaded. \<open>CH_API_KEY\<close> stays
  \<^verbatim>\<open>undefined\<close> when the variable is not set.
\<close>

record config =
  ORIGINS :: "string list"
  SHARED_SECRET :: string
  AUTH_HEADER :: string
  CH_API_KEY :: "string option"

definition env_or :: "(string \<rightharpoonup> string) \<Rightarrow> string \<Rightarrow> string \<Rightarrow> string" where
  "env_or env name dflt = (case env name of None \<Rightarrow> dflt | Some v \<Rightarrow> if v = [] then dflt else v)"

definition load_config :: "(string \<rightharpoonup> string) \<Rightarrow> config" where
  "load_config env =
     \<lparr> ORIGINS = filter (\<lambda>s. s \<noteq> []) (map trim (split_on CHR '','' (env_or env ''CORS_ORIGINS'' []))),
       SHARED_SECRET = env_or env ''SHARED_SECRET'' [],
       AUTH_HEADER = env_or env ''AUTH_HEADER'' ''x-ch-secret'',
       CH_API_KEY = env ''CH_API_KEY'' \<rparr>"

definition CH_BASE :: string where
  "CH_BASE = ''https://api.company-information.service.gov.uk''"

definition WINDOW_MS :: int where
  "WINDOW_MS = 60 * 1000"

definition MAX_REQS :: int where
  "MAX_REQS = 60"

section \<open>Requests, responses and the upstream\<close>

text \<open>
  The parts of an Express request that the source reads. \<open>query\<close> holds what the query
  parser made of each parameter: a string, an array or a nested object whose own
  properties are the keys the caller wrote (Express parses \<^verbatim>\<open>?q[toString]=x\<close> into an
  object with an own property \<^verbatim>\<open>toString\<close>). \<open>headers\<close> holds the own properties of
  \<^verbatim>\<open>req.headers\<close>: Node stores a header as a string, and \<^verbatim>\<open>set-cookie\<close> as an array of
  strings.
\<close>

datatype qval =
    QStr string
  | QArr "qval list"
  | QObj "(string \<times> qval) list"

datatype header_value =
    Single string
  | Multi "string list"

record request =
  ip :: "string option"
  path :: string
  headers :: "string \<rightharpoonup> header_value"
  query :: "string \<rightharpoonup> qval"
  params :: "string \<rightharpoonup> string"

text \<open>
  What \<^verbatim>\<open>res.status(s).json(b)\<close> sends: the status and the value handed to \<^verbatim>\<open>json\<close>
  (serialising it drops the properties whose value is \<^verbatim>\<open>undefined\<close>). \<^verbatim>\<open>res.json(b)\<close>
  alone keeps the default status 200.
\<close>

record http_response =
  status :: nat
  body :: jsval

definition res_status_json :: "nat \<Rightarrow> jsval \<Rightarrow> http_response" where
  "res_status_json s b = \<lparr> status = s, body = b \<rparr>"

definition res_json :: "jsval \<Rightarrow> http_response" where
  "res_json b = res_status_json 200 b"

text \<open>A middleware either calls \<^verbatim>\<open>next()\<close> or answers the request itself.\<close>

datatype step =
    Next
  | Respond http_response

text \<open>
  The outbound GET handed to \<^verbatim>\<open>fetch\<close>, and what the library gives back: the promise
  rejects, or it resolves to a response with a status whose body can then be read as text
  or as JSON; either read can itself reject (a broken connection, a body that does not
  parse).
\<close>

record outbound =
  url :: string
  authorization :: string

record upstream_response =
  r_status :: nat
  r_text :: "exn + string"
  r_json :: "exn + jsval"

definition r_ok :: "upstream_response \<Rightarrow> bool" where
  "r_ok r = (200 \<le> r_status r \<and> r_status r \<le> 299)"

type_synonym fetch = "outbound \<Rightarrow> exn + upstream_response"

text \<open>
  What a route handler has done when it is finished: the response sent, the outbound calls
  made, and the failures written with \<^verbatim>\<open>console.error\<close>.
\<close>

record handled =
  response :: http_response
  calls :: "outbound list"
  logged :: "(string \<times> exn) list"

section \<open>The origin guard\<close>

text \<open>The callback of \<^verbatim>\<open>corsOptions.origin\<close> is called with \<^verbatim>\<open>(null, true)\<close> or with an Error.\<close>

datatype cb_result =
    Cb_allow bool
  | Cb_error string

definition corsOptions_origin :: "config \<Rightarrow> string option \<Rightarrow> cb_result" where
  "corsOptions_origin cfg origin =
     (if \<not> truthy (of_opt origin) \<or> length (ORIGINS cfg) = 0 \<or> origin \<in> Some ` set (ORIGINS cfg)
      then Cb_allow True
      else Cb_error (''Not allowed by CORS: '' @ (case origin of None \<Rightarrow> ''undefined'' | Some s \<Rightarrow> s)))"

section \<open>The rate limiter\<close>

record entry =
  count :: int
  ts :: int

type_synonym hits = "string option \<rightharpoonup> entry"

definition rate_limited :: http_response where
  "rate_limited = res_status_json 429 (Obj [(''error'', Str ''Rate limit exceeded'')])"

text \<open>
  The middleware at a request arriving at time \<open>now\<close> (milliseconds, \<^verbatim>\<open>Date.now()\<close>):
  the table after the request, and what the middleware did.
\<close>

definition rate_limit :: "hits \<Rightarrow> int \<Rightarrow> request \<Rightarrow> step \<times> hits" where
  "rate_limit hits now req =
     (let key = ip req;
          entry0 = (case hits key of None \<Rightarrow> \<lparr> count = 0, ts = now \<rparr> | Some e \<Rightarrow> e);
          entry1 = (if now - ts entry0 > WINDOW_MS then entry0\<lparr> count := 0, ts := now \<rparr> else entry0);
          entry2 = entry1\<lparr> count := count entry1 + 1 \<rparr>;
          hits' = hits(key \<mapsto> entry2)
      in (if count entry2 > MAX_REQS then Respond rate_limited else Next, hits'))"

text \<open>The requests reach the middleware one after the other, each at its own time.\<close>

fun rate_limit_all :: "hits \<Rightarrow> (int \<times> request) list \<Rightarrow> step list \<times> hits" where
  "rate_limit_all hits [] = ([], hits)"
| "rate_limit_all hits ((now, req) # rest) =
     (let (s, hits1) = rate_limit hits now req;
          (ss, hits2) = rate_limit_all hits1 rest
      in (s # ss, hits2))"

section \<open>The shared-secret authenticator\<close>

definition not_configured :: http_response where
  "not_configured =
     res_status_json 500 (Obj [(''error'', Str ''Server not configured (missing SHARED_SECRET)'')])"

definition unauthorised :: http_response where
  "unauthorised = res_status_json 401 (Obj [(''error'', Str ''Unauthorised'')])"

text \<open>
  \<^verbatim>\<open>req.headers\<close> is a plain object, so \<^verbatim>\<open>req.headers[name]\<close> is the header stored
  under \<open>name\<close> when there is one, and otherwise the member that the object inherits from
  \<^verbatim>\<open>Object.prototype\<close> when \<open>name\<close> is the name of one (a function, or the prototype itself
  for \<^verbatim>\<open>__proto__\<close>, which no header can shadow), and otherwise \<^verbatim>\<open>undefined\<close>.
\<close>

datatype member =
    Absent
  | Header header_value
  | Inherited string

definition Object_prototype :: "string list" where
  "Object_prototype =
     [''constructor'', ''__defineGetter__'', ''__defineSetter__'', ''hasOwnProperty'',
      ''__lookupGetter__'', ''__lookupSetter__'', ''isPrototypeOf'', ''propertyIsEnumerable'',
      ''toString'', ''valueOf'', ''__proto__'', ''toLocaleString'']"

definition header :: "request \<Rightarrow> string \<Rightarrow> member" where
  "header req name =
     (if name = ''__proto__'' then Inherited name
      else (case headers req name of
              Some v \<Rightarrow> Header v
            | None \<Rightarrow> if name \<in> set Object_prototype then Inherited name else Absent))"

text \<open>Truthiness of what the lookup gives: arrays, functions and objects are truthy.\<close>

fun member_truthy :: "member \<Rightarrow> bool" where
  "member_truthy Absent = False"
| "member_truthy (Header (Single s)) = (s \<noteq> [])"
| "member_truthy (Header (Multi xs)) = True"
| "member_truthy (Inherited name) = True"

definition member_or :: "member \<Rightarrow> member \<Rightarrow> member" where
  "member_or a b = (if member_truthy a then a else b)"

definition auth :: "config \<Rightarrow> request \<Rightarrow> step" where
  "auth cfg req =
     (if path req = ''/health'' then Next
      else if \<not> truthy (Str (SHARED_SECRET cfg)) then Respond not_configured
      else
        let token = member_or (member_or (header req (AUTH_HEADER cfg))
                                         (header req (toLowerCase (AUTH_HEADER cfg))))
                              (header req (toUpperCase (AUTH_HEADER cfg)))
        in if \<not> member_truthy token \<or> token \<noteq> Header (Single (SHARED_SECRET cfg))
           then Respond unauthorised
           else Next)"

section \<open>The route handlers\<close>

definition health_handler :: "request \<Rightarrow> handled" where
  "health_handler req = \<lparr> response = res_json (Obj [(''ok'', Bool True)]), calls = [], logged = [] \<rparr>"

text \<open>The header every outbound call carries; an unset key concatenates as \<^verbatim>\<open>undefined\<close>.\<close>

definition basic_auth :: "config \<Rightarrow> string" where
  "basic_auth cfg =
     ''Basic '' @ base64 (utf8 ((case CH_API_KEY cfg of None \<Rightarrow> ''undefined'' | Some k \<Rightarrow> k) @ '':''))"

definition ch_error :: "upstream_response \<Rightarrow> exn + http_response" where
  "ch_error r =
     andThen (r_text r) (\<lambda>text.
       Inr (res_status_json (r_status r) (Obj [(''error'', Str ''CH error''), (''detail'', Str text)])))"

text \<open>
  \<^verbatim>\<open>(v || '').toString()\<close> on a query value. A string is itself. An array joins the
  strings of its elements with commas, from left to right. A parsed object inherits
  \<^verbatim>\<open>Object.prototype.toString\<close>, which gives \<^verbatim>\<open>[object Object]\<close>, unless it has an own
  property \<^verbatim>\<open>toString\<close>: that is a string, an array or an object, never a function, and
  converting the object to a string throws a TypeError.
\<close>

fun q_toString :: "qval \<Rightarrow> exn + string"
  and q_join :: "qval list \<Rightarrow> exn + string" where
  "q_toString (QStr s) = Inr s"
| "q_toString (QArr xs) = q_join xs"
| "q_toString (QObj fs) =
     (if ''toString'' \<in> set (map fst fs) then Inl TypeError else Inr ''[object Object]'')"
| "q_join [] = Inr []"
| "q_join [x] = q_toString x"
| "q_join (x # y # ys) =
     (case q_toString x of
        Inl e \<Rightarrow> Inl e
      | Inr s \<Rightarrow> (case q_join (y # ys) of
                   Inl e \<Rightarrow> Inl e
                 | Inr rest \<Rightarrow> Inr (s @ '','' @ rest)))"

definition query_string :: "qval option \<Rightarrow> exn + string" where
  "query_string v = (case v of None \<Rightarrow> Inr [] | Some q \<Rightarrow> q_toString q)"

text \<open>The same on a path parameter, which is a string when it is there.\<close>

definition param_string :: "string option \<Rightarrow> string" where
  "param_string v = (case v of None \<Rightarrow> [] | Some s \<Rightarrow> s)"

text \<open>A \<^verbatim>\<open>try\<close> block that made one outbound call, with its \<^verbatim>\<open>catch\<close>.\<close>

definition try_catch :: "outbound \<Rightarrow> exn + http_response \<Rightarrow> string \<Rightarrow> http_response \<Rightarrow> handled" where
  "try_catch call attempt msg fallback =
     (case attempt of
        Inr res \<Rightarrow> \<lparr> response = res, calls = [call], logged = [] \<rparr>
      | Inl e \<Rightarrow> \<lparr> response = fallback, calls = [call], logged = [(msg, e)] \<rparr>)"

subsection \<open>Company search\<close>

definition search_item :: "jsval \<Rightarrow> exn + jsval" where
  "search_item x =
     andThen (getProp x ''title'') (\<lambda>title.
     andThen (getProp x ''company_number'') (\<lambda>company_number.
     andThen (getProp x ''company_status'') (\<lambda>company_status.
     andThen (getProp x ''address_snippet'') (\<lambda>address_snippet.
       Inr (Obj [(''title'', title), (''company_number'', company_number),
                 (''company_status'', company_status), (''address_snippet'', address_snippet)])))))"

definition search_call :: "config \<Rightarrow> string \<Rightarrow> outbound" where
  "search_call cfg q =
     \<lparr> url = CH_BASE @ ''/search/companies?q='' @ encodeURIComponent q @ ''&items_per_page=20'',
       authorization = basic_auth cfg \<rparr>"

definition search_try :: "fetch \<Rightarrow> outbound \<Rightarrow> exn + http_response" where
  "search_try fetch call =
     andThen (fetch call) (\<lambda>r.
       if \<not> r_ok r then ch_error r
       else
         andThen (r_json r) (\<lambda>data.
         andThen (getProp data ''items'') (\<lambda>its.
         andThen (js_map search_item (js_or its (Arr []))) (\<lambda>items.
           Inr (res_json (Obj [(''items'', items)]))))))"

text \<open>
  The first statement of the handler stands before its \<^verbatim>\<open>try\<close>: when it throws, the
  handler ends with that exception, having sent no response and made no call (\<open>Inl\<close>).
\<close>

definition search_handler :: "config \<Rightarrow> fetch \<Rightarrow> request \<Rightarrow> exn + handled" where
  "search_handler cfg fetch req =
     andThen (query_string (query req ''q'')) (\<lambda>q.
       Inr (if \<not> truthy (Str q) \<or> length q < 3
            then \<lparr> response = res_json (Obj [(''items'', Arr [])]), calls = [], logged = [] \<rparr>
            else try_catch (search_call cfg q) (search_try fetch (search_call cfg q))
                   ''CH search failed'' (res_status_json 500 (Obj [(''items'', Arr [])]))))"

text \<open>The response a run of the search handler has sent, if it has sent one.\<close>

definition sent :: "exn + handled \<Rightarrow> http_response option" where
  "sent h = (case h of Inl e \<Rightarrow> None | Inr d \<Rightarrow> Some (response d))"

subsection \<open>Officers\<close>

definition officer_item :: "jsval \<Rightarrow> exn + jsval" where
  "officer_item o' =
     andThen (getProp o' ''name'') (\<lambda>name.
     andThen (getProp o' ''appointed_on'') (\<lambda>appointed_on.
     andThen (getProp o' ''resigned_on'') (\<lambda>resigned_on.
     andThen (getProp o' ''officer_role'') (\<lambda>officer_role.
       Inr (Obj [(''name'', name), (''appointed_on'', appointed_on),
                 (''resigned_on'', resigned_on), (''role'', officer_role)])))))"

definition officers_call :: "config \<Rightarrow> string \<Rightarrow> outbound" where
  "officers_call cfg number =
     \<lparr> url = CH_BASE @ ''/company/'' @ encodeURIComponent number @ ''/officers?items_per_page=50'',
       authorization = basic_auth cfg \<rparr>"

definition officers_try :: "fetch \<Rightarrow> outbound \<Rightarrow> exn + http_response" where
  "officers_try fetch call =
     andThen (fetch call) (\<lambda>r.
       if \<not> r_ok r then ch_error r
       else
         andThen (r_json r) (\<lambda>data.
         andThen (getProp data ''items'') (\<lambda>its.
         andThen (js_map officer_item (js_or its (Arr []))) (\<lambda>items.
           Inr (res_json (Obj [(''items'', items)]))))))"

definition officers_handler :: "config \<Rightarrow> fetch \<Rightarrow> request \<Rightarrow> handled" where
  "officers_handler cfg fetch req =
     (let number = param_string (params req ''number'') in
      if \<not> truthy (Str number)
      then \<lparr> response = res_json (Obj [(''items'', Arr [])]), calls = [], logged = [] \<rparr>
      else try_catch (officers_call cfg number) (officers_try fetch (officers_call cfg number))
             ''CH officers failed'' (res_status_json 500 (Obj [(''items'', Arr [])])))"

subsection \<open>Company details\<close>

definition details_call :: "config \<Rightarrow> string \<Rightarrow> outbound" where
  "details_call cfg number =
     \<lparr> url = CH_BASE @ ''/company/'' @ encodeURIComponent number,
       authorization = basic_auth cfg \<rparr>"

definition details_try :: "fetch \<Rightarrow> outbound \<Rightarrow> exn + http_response" where
  "details_try fetch call =
     andThen (fetch call) (\<lambda>r.
       if \<not> r_ok r then ch_error r
       else andThen (r_json r) (\<lambda>data. Inr (res_json data)))"

definition details_handler :: "config \<Rightarrow> fetch \<Rightarrow> request \<Rightarrow> handled" where
  "details_handler cfg fetch req =
     (let number = param_string (params req ''number'') in
      if \<not> truthy (Str number)
      then \<lparr> response = res_status_json 400 (Obj [(''error'', Str ''No company number'')]),
             calls = [], logged = [] \<rparr>
      else try_catch (details_call cfg number) (details_try fetch (details_call cfg number))
             ''CH details failed''
             (res_status_json 500 (Obj [(''error'', Str ''Failed to fetch company details'')])))"

section \<open>Notions used to state the properties\<close>

text \<open>
  The requests that caller \<open>k\<close> sent among the requests \<open>rs\<close>, and the answers the
  rate limiter gave to them among the answers \<open>ss\<close> to \<open>rs\<close>.
\<close>

definition from_caller :: "string option \<Rightarrow> (int \<times> request) list \<Rightarrow> (int \<times> request) list" where
  "from_caller k rs = filter (\<lambda>(t, r). ip r = k) rs"

definition answers_to :: "string option \<Rightarrow> (int \<times> request) list \<Rightarrow> step list \<Rightarrow> step list" where
  "answers_to k rs ss = map snd (filter (\<lambda>((t, r), s). ip r = k) (zip rs ss))"

definition verdict :: "int \<Rightarrow> step" where
  "verdict c = (if c > MAX_REQS then Respond rate_limited else Next)"

text \<open>
  The reading of a successful search response that the specification describes: an item
  gives its four fields, each copied when the item is an object that has it and
  \<^verbatim>\<open>undefined\<close> otherwise.
\<close>

fun field :: "jsval \<Rightarrow> string \<Rightarrow> jsval" where
  "field (Obj fs) name = (case map_of fs name of None \<Rightarrow> Undefined | Some v \<Rightarrow> v)"
| "field v name = Undefined"

definition projected :: "jsval \<Rightarrow> jsval" where
  "projected x =
     Obj [(''title'', field x ''title''), (''company_number'', field x ''company_number''),
          (''company_status'', field x ''company_status''),
          (''address_snippet'', field x ''address_snippet'')]"

text \<open>
  A transport-level failure of an outbound call: the call itself fails, or the body of the
  response cannot be read the way the handler reads it (parsed as JSON after a success
  status, as text after any other status).
\<close>

definition transport_failure :: "fetch \<Rightarrow> outbound \<Rightarrow> bool" where
  "transport_failure fetch call =
     (case fetch call of
        Inl e \<Rightarrow> True
      | Inr r \<Rightarrow> if r_ok r then isl (r_json r) else isl (r_text r))"

subsection \<open>Example data\<close>

definition example_config :: config where
  "example_config =
     \<lparr> ORIGINS = [''https://app.example''], SHARED_SECRET = ''s3cret'',
       AUTH_HEADER = ''X-Ch-Secret'', CH_API_KEY = Some ''key'' \<rparr>"

definition unconfigured :: config where
  "unconfigured = example_config\<lparr> SHARED_SECRET := [] \<rparr>"

definition caller_request :: request where
  "caller_request =
     \<lparr> ip = Some ''203.0.113.7'', path = ''/companies-house/search'',
       headers = [''x-ch-secret'' \<mapsto> Single ''s3cret''], query = [''q'' \<mapsto> QStr ''acme''],
       params = [''number'' \<mapsto> ''00000006''] \<rparr>"

definition other_request :: request where
  "other_request = caller_request\<lparr> ip := Some ''198.51.100.2'' \<rparr>"

definition health_request :: request where
  "health_request = caller_request\<lparr> path := ''/health'', headers := Map.empty \<rparr>"

definition short_request :: request where
  "short_request = caller_request\<lparr> query := [''q'' \<mapsto> QStr ''ab''], params := Map.empty \<rparr>"

definition object_request :: request where
  "object_request = caller_request\<lparr> query := [''q'' \<mapsto> QObj [(''toString'', QStr ''acme'')]] \<rparr>"

definition toString_config :: config where
  "toString_config = example_config\<lparr> AUTH_HEADER := ''toString'' \<rparr>"

definition tostring_request :: request where
  "tostring_request = caller_request\<lparr> headers := [''tostring'' \<mapsto> Single ''s3cret''] \<rparr>"

definition upstream_mixed :: fetch where
  "upstream_mixed call =
     Inr \<lparr> r_status = 200, r_text = Inr ''(search results)'',
           r_json = Inr (Obj [(''items'', Arr [Obj [(''title'', Str ''Acme Ltd'')], Null])]) \<rparr>"

definition busy_hits :: hits where
  "busy_hits = [Some ''203.0.113.7'' \<mapsto> \<lparr> count = 60, ts = 0 \<rparr>]"

definition upstream_404 :: fetch where
  "upstream_404 call = Inr \<lparr> r_status = 404, r_text = Inr ''not found'', r_json = Inl (FetchFailure ''invalid json'') \<rparr>"

definition upstream_acme :: fetch where
  "upstream_acme call =
     Inr \<lparr> r_status = 200,
           r_text = Inr ''(search results)'',
           r_json = Inr (Obj [(''items'', Arr [Obj [(''title'', Str ''Acme Ltd''),
                      (''company_number'', Str ''123''), (''company_status'', Str ''active''),
                      (''address_snippet'', Str ''1 Road''), (''kind'', Str ''company'')]]),
                    (''total_results'', Num 1)]) \<rparr>"

definition upstream_null_item :: fetch where
  "upstream_null_item call =
     Inr \<lparr> r_status = 200, r_text = Inr ''(search results)'',
           r_json = Inr (Obj [(''items'', Arr [Null])]) \<rparr>"

definition upstream_null :: fetch where
  "upstream_null call = Inr \<lparr> r_status = 200, r_text = Inr ''null'', r_json = Inr Null \<rparr>"

definition upstream_garbled :: fetch where
  "upstream_garbled call =
     Inr \<lparr> r_status = 200, r_text = Inr ''<html>'', r_json = Inl (FetchFailure ''invalid json'') \<rparr>"

definition upstream_no_items :: fetch where
  "upstream_no_items call =
     Inr \<lparr> r_status = 200, r_text = Inr ''(search results)'',
           r_json = Inr (Obj [(''total_results'', Num 0)]) \<rparr>"

definition upstream_down :: fetch where
  "upstream_down call = Inl (FetchFailure ''ECONNREFUSED'')"

section \<open>The shared-secret authenticator: properties\<close>

text \<open>
  C1, as amended. For a request to a path other than \<^verbatim>\<open>/health\<close>, with a shared secret
  configured, the authenticator reads \<^verbatim>\<open>req.headers\<close> under three names, the configured
  one, its lower case and its upper case, in this order; the token is the first truthy
  value read. With no token, or a token that is not the secret string, the answer is 401
  with \<^verbatim>\<open>{error: "Unauthorised"}\<close>; with the secret, the request goes on to the route
  handler. When none of the three names is the name of a member of \<^verbatim>\<open>Object.prototype\<close>,
  the values read are the caller's headers, and the token is the first non-empty header
  value among the three names.
\<close>

lemma member_or_first:
  assumes "member_truthy x"
  shows "(let token = member_or (member_or a b) c
          in if \<not> member_truthy token \<or> token \<noteq> x then r else n)
       = (case filter member_truthy [a, b, c] of
            [] \<Rightarrow> r
          | token # _ \<Rightarrow> if token = x then n else r)"
  using assms by (auto simp: member_or_def Let_def)

lemma header_inherited:
  "header req ''__proto__'' = Inherited ''__proto__''"
  "name \<in> set Object_prototype \<Longrightarrow> headers req name = None \<Longrightarrow> header req name = Inherited name"
  "headers req name = Some v \<Longrightarrow> name \<noteq> ''__proto__'' \<Longrightarrow> header req name = Header v"
  by (simp_all add: header_def)

lemma header_ordinary:
  "name \<notin> set Object_prototype \<Longrightarrow>
   header req name = (case headers req name of None \<Rightarrow> Absent | Some v \<Rightarrow> Header v)"
  by (auto simp: header_def Object_prototype_def split: option.splits)

lemma caller_headers_first:
  "(case filter member_truthy
           [case a of None \<Rightarrow> Absent | Some v \<Rightarrow> Header v,
            case b of None \<Rightarrow> Absent | Some v \<Rightarrow> Header v,
            case c of None \<Rightarrow> Absent | Some v \<Rightarrow> Header v] of
      [] \<Rightarrow> r
    | token # _ \<Rightarrow> if token = Header (Single x) then n else r)
   = (case filter (\<lambda>v. v \<noteq> Single []) (List.map_filter id [a, b, c]) of
        [] \<Rightarrow> r
      | token # _ \<Rightarrow> if token = Single x then n else r)"
proof -
  have t: "\<And>v. member_truthy (Header v) = (v \<noteq> Single [])"
    by (case_tac v) simp_all
  show ?thesis
    by (cases a; cases b; cases c) (simp_all add: List.map_filter_def t)
qed

theorem auth_token_check:
  assumes "path req \<noteq> ''/health''" and "SHARED_SECRET cfg \<noteq> []"
  shows "auth cfg req =
     (case filter member_truthy
             (map (header req)
                [AUTH_HEADER cfg, toLowerCase (AUTH_HEADER cfg), toUpperCase (AUTH_HEADER cfg)]) of
        [] \<Rightarrow> Respond \<lparr> status = 401, body = Obj [(''error'', Str ''Unauthorised'')] \<rparr>
      | token # _ \<Rightarrow>
          if token = Header (Single (SHARED_SECRET cfg)) then Next
          else Respond \<lparr> status = 401, body = Obj [(''error'', Str ''Unauthorised'')] \<rparr>)
   \<and> ((\<forall>name \<in> set [AUTH_HEADER cfg, toLowerCase (AUTH_HEADER cfg), toUpperCase (AUTH_HEADER cfg)].
          name \<notin> set Object_prototype) \<longrightarrow>
       auth cfg req =
         (case filter (\<lambda>v. v \<noteq> Single [])
                 (List.map_filter (headers req)
                    [AUTH_HEADER cfg, toLowerCase (AUTH_HEADER cfg), toUpperCase (AUTH_HEADER cfg)]) of
            [] \<Rightarrow> Respond \<lparr> status = 401, body = Obj [(''error'', Str ''Unauthorised'')] \<rparr>
          | token # _ \<Rightarrow>
              if token = Single (SHARED_SECRET cfg) then Next
              else Respond \<lparr> status = 401, body = Obj [(''error'', Str ''Unauthorised'')] \<rparr>))"
proof -
  let ?r = "Respond \<lparr> status = 401, body = Obj [(''error'', Str ''Unauthorised'')] \<rparr>"
  let ?h = "AUTH_HEADER cfg"
  have s: "member_truthy (Header (Single (SHARED_SECRET cfg)))" using assms(2) by simp
  have a: "auth cfg req =
      (let token = member_or (member_or (header req ?h) (header req (toLowerCase ?h)))
                             (header req (toUpperCase ?h))
       in if \<not> member_truthy token \<or> token \<noteq> Header (Single (SHARED_SECRET cfg))
          then ?r else Next)"
    using assms by (simp add: auth_def unauthorised_def res_status_json_def Let_def)
  have g: "auth cfg req =
     (case filter member_truthy
             [header req ?h, header req (toLowerCase ?h), header req (toUpperCase ?h)] of
        [] \<Rightarrow> ?r
      | token # _ \<Rightarrow> if token = Header (Single (SHARED_SECRET cfg)) then Next else ?r)"
    unfolding a by (rule member_or_first [OF s])
  show ?thesis
  proof (intro conjI impI)
    show "auth cfg req =
     (case filter member_truthy
             (map (header req) [?h, toLowerCase ?h, toUpperCase ?h]) of
        [] \<Rightarrow> ?r
      | token # _ \<Rightarrow> if token = Header (Single (SHARED_SECRET cfg)) then Next else ?r)"
      using g by simp
  next
    assume o: "\<forall>name \<in> set [?h, toLowerCase ?h, toUpperCase ?h]. name \<notin> set Object_prototype"
    have h: "header req ?h = (case headers req ?h of None \<Rightarrow> Absent | Some v \<Rightarrow> Header v)"
        "header req (toLowerCase ?h)
           = (case headers req (toLowerCase ?h) of None \<Rightarrow> Absent | Some v \<Rightarrow> Header v)"
        "header req (toUpperCase ?h)
           = (case headers req (toUpperCase ?h) of None \<Rightarrow> Absent | Some v \<Rightarrow> Header v)"
      using o by (simp_all add: header_ordinary)
    have m: "List.map_filter (headers req) [?h, toLowerCase ?h, toUpperCase ?h]
               = List.map_filter id
                   [headers req ?h, headers req (toLowerCase ?h), headers req (toUpperCase ?h)]"
      by (simp add: List.map_filter_def)
    show "auth cfg req =
         (case filter (\<lambda>v. v \<noteq> Single [])
                 (List.map_filter (headers req) [?h, toLowerCase ?h, toUpperCase ?h]) of
            [] \<Rightarrow> ?r
          | token # _ \<Rightarrow> if token = Single (SHARED_SECRET cfg) then Next else ?r)"
      unfolding g h m by (rule caller_headers_first)
  qed
qed

lemma example_names:
  "AUTH_HEADER example_config = ''X-Ch-Secret''"
  "toLowerCase ''X-Ch-Secret'' = ''x-ch-secret''"
  "toUpperCase ''X-Ch-Secret'' = ''X-CH-SECRET''"
  "SHARED_SECRET example_config = ''s3cret''"
  by code_simp+

theorem auth_token_check_witness:
  "path caller_request \<noteq> ''/health'' \<and> SHARED_SECRET example_config \<noteq> []
   \<and> AUTH_HEADER example_config = ''X-Ch-Secret''
   \<and> toLowerCase (AUTH_HEADER example_config) = ''x-ch-secret''
   \<and> toUpperCase (AUTH_HEADER example_config) = ''X-CH-SECRET''
   \<and> auth example_config (caller_request\<lparr> headers := [''X-Ch-Secret'' \<mapsto> Single ''s3cret''] \<rparr>) = Next
   \<and> auth example_config (caller_request\<lparr> headers := [''x-ch-secret'' \<mapsto> Single ''s3cret''] \<rparr>) = Next
   \<and> auth example_config (caller_request\<lparr> headers := [''X-CH-SECRET'' \<mapsto> Single ''s3cret''] \<rparr>) = Next
   \<and> auth example_config
         (caller_request\<lparr> headers := [''x-ch-secret'' \<mapsto> Single ''s3cret'',
                                       ''X-Ch-Secret'' \<mapsto> Single ''guess''] \<rparr>)
       = Respond \<lparr> status = 401, body = Obj [(''error'', Str ''Unauthorised'')] \<rparr>
   \<and> auth example_config (caller_request\<lparr> headers := [''x-ch-secret'' \<mapsto> Single ''guess''] \<rparr>)
       = Respond \<lparr> status = 401, body = Obj [(''error'', Str ''Unauthorised'')] \<rparr>
   \<and> auth example_config (caller_request\<lparr> headers := [''x-ch-secret'' \<mapsto> Multi [''s3cret'']] \<rparr>)
       = Respond \<lparr> status = 401, body = Obj [(''error'', Str ''Unauthorised'')] \<rparr>
   \<and> auth example_config (caller_request\<lparr> headers := Map.empty \<rparr>)
       = Respond \<lparr> status = 401, body = Obj [(''error'', Str ''Unauthorised'')] \<rparr>"
proof -
  have p: "\<And>hs. path (caller_request\<lparr> headers := hs \<rparr>) \<noteq> ''/health''"
    by (simp add: caller_request_def)
  have s: "SHARED_SECRET example_config \<noteq> []" by (simp add: example_names)
  have o: "\<forall>name \<in> set [AUTH_HEADER example_config, toLowerCase (AUTH_HEADER example_config),
                          toUpperCase (AUTH_HEADER example_config)]. name \<notin> set Object_prototype"
    by (simp add: example_names Object_prototype_def)
  have t: "\<And>hs. auth example_config (caller_request\<lparr> headers := hs \<rparr>) =
         (case filter (\<lambda>v. v \<noteq> Single [])
                 (List.map_filter (headers (caller_request\<lparr> headers := hs \<rparr>))
                    [AUTH_HEADER example_config, toLowerCase (AUTH_HEADER example_config),
                     toUpperCase (AUTH_HEADER example_config)]) of
            [] \<Rightarrow> Respond \<lparr> status = 401, body = Obj [(''error'', Str ''Unauthorised'')] \<rparr>
          | token # _ \<Rightarrow>
              if token = Single (SHARED_SECRET example_config) then Next
              else Respond \<lparr> status = 401, body = Obj [(''error'', Str ''Unauthorised'')] \<rparr>)"
    by (rule auth_token_check [OF p s, THEN conjunct2, THEN mp, OF o])
  have c: "path caller_request \<noteq> ''/health''" by (simp add: caller_request_def)
  show ?thesis
    unfolding t using c by (simp add: example_names List.map_filter_def)
qed

text \<open>
  C1 as stated fails: with the header name \<^verbatim>\<open>toString\<close> configured, a caller who sends
  exactly the secret under the lower-cased name is answered 401, because the value read
  under the configured name is the function every object inherits, which is truthy.
\<close>

theorem auth_token_check_counterexample:
  "path tostring_request \<noteq> ''/health''
   \<and> SHARED_SECRET toString_config = ''s3cret''
   \<and> toLowerCase (AUTH_HEADER toString_config) = ''tostring''
   \<and> headers tostring_request ''tostring'' = Some (Single ''s3cret'')
   \<and> auth toString_config tostring_request
       = Respond \<lparr> status = 401, body = Obj [(''error'', Str ''Unauthorised'')] \<rparr>"
proof -
  have n: "AUTH_HEADER toString_config = ''toString''" "SHARED_SECRET toString_config = ''s3cret''"
      "toLowerCase ''toString'' = ''tostring''" "toUpperCase ''toString'' = ''TOSTRING''"
    by code_simp+
  have h: "header tostring_request ''toString'' = Inherited ''toString''"
    by (simp add: header_def tostring_request_def Object_prototype_def)
  have p: "path tostring_request \<noteq> ''/health''"
    by (simp add: tostring_request_def caller_request_def)
  have v: "headers tostring_request ''tostring'' = Some (Single ''s3cret'')"
    by (simp add: tostring_request_def)
  have a: "auth toString_config tostring_request
       = Respond \<lparr> status = 401, body = Obj [(''error'', Str ''Unauthorised'')] \<rparr>"
    by (simp add: n h p auth_def member_or_def unauthorised_def res_status_json_def Let_def)
  show ?thesis using n p v a by simp
qed

text \<open>
  C2. With no shared secret configured, the authenticator answers a request to any path
  other than \<^verbatim>\<open>/health\<close> with 500 and
  \<^verbatim>\<open>{error: "Server not configured (missing SHARED_SECRET)"}\<close>, so that no route handler
  runs; a request to \<^verbatim>\<open>/health\<close> passes, and its handler answers 200 with
  \<^verbatim>\<open>{ok: true}\<close>.
\<close>

theorem auth_not_configured:
  assumes "SHARED_SECRET cfg = []"
  shows "(path req \<noteq> ''/health'' \<longrightarrow>
            auth cfg req = Respond \<lparr> status = 500,
               body = Obj [(''error'', Str ''Server not configured (missing SHARED_SECRET)'')] \<rparr>)
       \<and> (path req = ''/health'' \<longrightarrow>
            auth cfg req = Next
          \<and> response (health_handler req) = \<lparr> status = 200, body = Obj [(''ok'', Bool True)] \<rparr>)"
  using assms
  by (simp add: auth_def not_configured_def res_status_json_def health_handler_def res_json_def)

theorem auth_not_configured_witness:
  "SHARED_SECRET unconfigured = []
   \<and> path caller_request \<noteq> ''/health''
   \<and> auth unconfigured caller_request = Respond \<lparr> status = 500,
        body = Obj [(''error'', Str ''Server not configured (missing SHARED_SECRET)'')] \<rparr>
   \<and> path health_request = ''/health''
   \<and> auth unconfigured health_request = Next
   \<and> response (health_handler health_request) = \<lparr> status = 200, body = Obj [(''ok'', Bool True)] \<rparr>"
proof -
  have s: "SHARED_SECRET unconfigured = []" by (simp add: unconfigured_def)
  have p: "path caller_request \<noteq> ''/health''" by (simp add: caller_request_def)
  have h: "path health_request = ''/health''" by (simp add: health_request_def)
  show ?thesis
    using auth_not_configured [OF s, of caller_request] auth_not_configured [OF s, of health_request]
      s p h by simp
qed

section \<open>Input validation: properties\<close>

text \<open>
  C6. A search request whose term \<^verbatim>\<open>q\<close> is missing or shorter than three characters, and
  an officers request whose company number is empty, is answered 200 with \<^verbatim>\<open>{items: []}\<close>,
  and no outbound call is made.
\<close>

theorem short_input_no_call:
  "(query req ''q'' = None \<or> (\<exists>q. query_string (query req ''q'') = Inr q \<and> length q < 3) \<longrightarrow>
      search_handler cfg fetch req =
        Inr \<lparr> response = \<lparr> status = 200, body = Obj [(''items'', Arr [])] \<rparr>, calls = [],
              logged = [] \<rparr>)
 \<and> (param_string (params req ''number'') = [] \<longrightarrow>
      officers_handler cfg fetch req =
        \<lparr> response = \<lparr> status = 200, body = Obj [(''items'', Arr [])] \<rparr>, calls = [], logged = [] \<rparr>)"
  by (auto simp: search_handler_def officers_handler_def query_string_def andThen_def res_json_def
        res_status_json_def Let_def)

theorem short_input_no_call_witness:
  "query_string (query short_request ''q'') = Inr ''ab''
   \<and> length ''ab'' < 3
   \<and> search_handler example_config upstream_acme short_request =
        Inr \<lparr> response = \<lparr> status = 200, body = Obj [(''items'', Arr [])] \<rparr>, calls = [],
              logged = [] \<rparr>
   \<and> query (short_request\<lparr> query := Map.empty \<rparr>) ''q'' = None
   \<and> search_handler example_config upstream_acme (short_request\<lparr> query := Map.empty \<rparr>) =
        Inr \<lparr> response = \<lparr> status = 200, body = Obj [(''items'', Arr [])] \<rparr>, calls = [],
              logged = [] \<rparr>
   \<and> param_string (params short_request ''number'') = []
   \<and> officers_handler example_config upstream_acme short_request =
        \<lparr> response = \<lparr> status = 200, body = Obj [(''items'', Arr [])] \<rparr>, calls = [], logged = [] \<rparr>"
proof -
  have q: "query_string (query short_request ''q'') = Inr ''ab''"
    by (simp add: short_request_def query_string_def)
  have m: "query (short_request\<lparr> query := Map.empty \<rparr>) ''q'' = None" by simp
  have n: "param_string (params short_request ''number'') = []"
    by (simp add: short_request_def param_string_def)
  show ?thesis
    using short_input_no_call [of short_request example_config upstream_acme]
      short_input_no_call [of "short_request\<lparr> query := Map.empty \<rparr>" example_config upstream_acme]
      q m n by simp
qed

text \<open>
  C7. A detail request whose company number is empty is answered 400 with
  \<^verbatim>\<open>{error: "No company number"}\<close>, and no outbound call is made.
\<close>

theorem details_empty_number:
  assumes "param_string (params req ''number'') = []"
  shows "details_handler cfg fetch req =
        \<lparr> response = \<lparr> status = 400, body = Obj [(''error'', Str ''No company number'')] \<rparr>,
          calls = [], logged = [] \<rparr>"
  using assms by (simp add: details_handler_def res_status_json_def)

theorem details_empty_number_witness:
  "param_string (params short_request ''number'') = []
   \<and> details_handler example_config upstream_acme short_request =
        \<lparr> response = \<lparr> status = 400, body = Obj [(''error'', Str ''No company number'')] \<rparr>,
          calls = [], logged = [] \<rparr>"
proof -
  have n: "param_string (params short_request ''number'') = []"
    by (simp add: short_request_def param_string_def)
  show ?thesis using details_empty_number [OF n, of example_config upstream_acme] n by simp
qed

section \<open>The rate limiter: properties\<close>

lemma rate_limit_other:
  "ip req \<noteq> k \<Longrightarrow> snd (rate_limit hits now req) k = hits k"
  by (simp add: rate_limit_def Let_def)

lemma rate_limit_in_window:
  assumes "hits (ip req) = Some e" and "now - ts e \<le> WINDOW_MS"
  shows "rate_limit hits now req =
           (verdict (count e + 1), hits(ip req \<mapsto> e\<lparr> count := count e + 1 \<rparr>))"
  using assms by (simp add: rate_limit_def Let_def verdict_def)

lemma rate_limit_opens:
  assumes "hits (ip req) = None \<or> (\<exists>e. hits (ip req) = Some e \<and> now - ts e > WINDOW_MS)"
  shows "rate_limit hits now req = (Next, hits(ip req \<mapsto> \<lparr> count = 1, ts = now \<rparr>))"
  using assms by (auto simp: rate_limit_def Let_def MAX_REQS_def WINDOW_MS_def)

lemma length_rate_limit_all: "length (fst (rate_limit_all hits rs)) = length rs"
  by (induction rs arbitrary: hits) (auto simp: split_def Let_def)

lemma upt_shift: "map f [Suc 0..<Suc (Suc n)] = f (Suc 0) # map (\<lambda>i. f (Suc i)) [Suc 0..<Suc n]"
proof -
  have "[Suc 0..<Suc (Suc n)] = Suc 0 # map Suc [Suc 0..<Suc n]"
    by (metis map_Suc_upt upt_conv_Cons zero_less_Suc Suc_less_eq)
  then show ?thesis by (simp add: comp_def)
qed

lemma from_caller_Cons:
  "from_caller k ((t, r) # rs) = (if ip r = k then (t, r) # from_caller k rs else from_caller k rs)"
  by (simp add: from_caller_def)

lemma answers_to_Cons:
  "answers_to k ((t, r) # rs) (s # ss) = (if ip r = k then s # answers_to k rs ss else answers_to k rs ss)"
  by (simp add: answers_to_def)

lemma rate_limit_all_Cons:
  "rate_limit_all hits ((t, r) # rs) =
     (fst (rate_limit hits t r) # fst (rate_limit_all (snd (rate_limit hits t r)) rs),
      snd (rate_limit_all (snd (rate_limit hits t r)) rs))"
  by (simp add: split_def Let_def)

lemma in_window_run:
  assumes "hits k = Some e"
    and "\<forall>(t, r) \<in> set rs. ip r = k \<longrightarrow> t - ts e \<le> WINDOW_MS"
  shows "snd (rate_limit_all hits rs) k
           = Some (e\<lparr> count := count e + int (length (from_caller k rs)) \<rparr>)
       \<and> answers_to k rs (fst (rate_limit_all hits rs))
           = map (\<lambda>i. verdict (count e + int i)) [1..<Suc (length (from_caller k rs))]"
  using assms
proof (induction rs arbitrary: hits e)
  case Nil
  then show ?case by (simp add: from_caller_def answers_to_def)
next
  case (Cons x rs)
  obtain t r where x: "x = (t, r)" by (cases x)
  show ?case
  proof (cases "ip r = k")
    case False
    then have h1: "snd (rate_limit hits t r) k = Some e"
      using Cons.prems(1) by (simp add: rate_limit_other)
    have w: "\<forall>(t, r) \<in> set rs. ip r = k \<longrightarrow> t - ts e \<le> WINDOW_MS"
      using Cons.prems(2) by simp
    have ih: "snd (rate_limit_all (snd (rate_limit hits t r)) rs) k
                = Some (e\<lparr> count := count e + int (length (from_caller k rs)) \<rparr>)
            \<and> answers_to k rs (fst (rate_limit_all (snd (rate_limit hits t r)) rs))
                = map (\<lambda>i. verdict (count e + int i)) [1..<Suc (length (from_caller k rs))]"
      by (rule Cons.IH [of "snd (rate_limit hits t r)" e, OF h1 w])
    show ?thesis
      unfolding x rate_limit_all_Cons fst_conv snd_conv from_caller_Cons answers_to_Cons
      using ih False by simp
  next
    case True
    have inw: "t - ts e \<le> WINDOW_MS" using Cons.prems(2) True by (simp add: x)
    let ?e = "e\<lparr> count := count e + 1 \<rparr>"
    have step: "rate_limit hits t r = (verdict (count e + 1), hits(k \<mapsto> ?e))"
      using rate_limit_in_window [of hits r e t] Cons.prems(1) True inw by simp
    have h1: "(hits(k \<mapsto> ?e)) k = Some ?e" by simp
    have w: "\<forall>(t, r) \<in> set rs. ip r = k \<longrightarrow> t - ts ?e \<le> WINDOW_MS"
      using Cons.prems(2) by simp
    have ih: "snd (rate_limit_all (hits(k \<mapsto> ?e)) rs) k
                = Some (?e\<lparr> count := count ?e + int (length (from_caller k rs)) \<rparr>)
            \<and> answers_to k rs (fst (rate_limit_all (hits(k \<mapsto> ?e)) rs))
                = map (\<lambda>i. verdict (count ?e + int i)) [1..<Suc (length (from_caller k rs))]"
      by (rule Cons.IH [of "hits(k \<mapsto> ?e)" ?e, OF h1 w])
    have shift: "map (\<lambda>i. verdict (count e + int i)) [1..<Suc (Suc (length (from_caller k rs)))]
                 = verdict (count e + 1) # map (\<lambda>i. verdict (count ?e + int i)) [1..<Suc (length (from_caller k rs))]"
      using upt_shift [of "\<lambda>i. verdict (count e + int i)" "length (from_caller k rs)"]
      by (simp add: add.assoc del: upt_Suc)
    show ?thesis
      unfolding x rate_limit_all_Cons step fst_conv snd_conv from_caller_Cons answers_to_Cons
      using ih True shift by (simp add: add.assoc del: upt_Suc)
  qed
qed


lemma answers_length:
  "length ss = length rs \<Longrightarrow> length (answers_to k rs ss) = length (from_caller k rs)"
proof (induction rs arbitrary: ss)
  case Nil then show ?case by (simp add: answers_to_def from_caller_def)
next
  case (Cons x rs)
  obtain t r where x: "x = (t, r)" by (cases x)
  from Cons.prems obtain s ss' where ss: "ss = s # ss'" and l: "length ss' = length rs"
    by (cases ss) auto
  show ?case using Cons.IH [OF l] by (simp add: x ss answers_to_Cons from_caller_Cons)
qed

lemma opened_run:
  assumes opens: "hits k = None \<or> (\<exists>e. hits k = Some e \<and> t0 - ts e > WINDOW_MS)"
    and k: "ip r0 = k"
    and inw: "\<forall>(t, r) \<in> set rs. ip r = k \<longrightarrow> t - t0 \<le> WINDOW_MS"
  shows "snd (rate_limit_all hits ((t0, r0) # rs)) k
           = Some \<lparr> count = 1 + int (length (from_caller k rs)), ts = t0 \<rparr>"
    and "answers_to k ((t0, r0) # rs) (fst (rate_limit_all hits ((t0, r0) # rs)))
           = map (\<lambda>i. verdict (int i)) [1..<Suc (Suc (length (from_caller k rs)))]"
proof -
  let ?e = "\<lparr> count = 1, ts = t0 \<rparr>"
  have step: "rate_limit hits t0 r0 = (Next, hits(k \<mapsto> ?e))"
    using rate_limit_opens [of hits r0 t0] opens k by simp
  have h1: "(hits(k \<mapsto> ?e)) k = Some ?e" by simp
  have w: "\<forall>(t, r) \<in> set rs. ip r = k \<longrightarrow> t - ts ?e \<le> WINDOW_MS" using inw by simp
  note run = in_window_run [of "hits(k \<mapsto> ?e)" k ?e rs, OF h1 w]
  show "snd (rate_limit_all hits ((t0, r0) # rs)) k
           = Some \<lparr> count = 1 + int (length (from_caller k rs)), ts = t0 \<rparr>"
    unfolding rate_limit_all_Cons step fst_conv snd_conv using run by simp
  have v1: "verdict 1 = Next" by (simp add: verdict_def MAX_REQS_def)
  have shift: "map (\<lambda>i. verdict (int i)) [1..<Suc (Suc (length (from_caller k rs)))]
       = Next # map (\<lambda>i. verdict (count ?e + int i)) [1..<Suc (length (from_caller k rs))]"
    using upt_shift [of "\<lambda>i. verdict (int i)" "length (from_caller k rs)"] v1
    by (simp del: upt_Suc)
  show "answers_to k ((t0, r0) # rs) (fst (rate_limit_all hits ((t0, r0) # rs)))
           = map (\<lambda>i. verdict (int i)) [1..<Suc (Suc (length (from_caller k rs)))]"
    unfolding rate_limit_all_Cons step fst_conv snd_conv answers_to_Cons shift
    using run k by simp
qed

text \<open>
  C3. The rate limiter keeps one fixed-window counter per caller. At each request it
  takes the caller's entry (a fresh one with count 0 starting now when there is none),
  resets the count to 0 and restarts the window when more than 60 seconds have passed
  since the window started, adds one to the count, stores the entry, and answers 429 with
  \<^verbatim>\<open>{error: "Rate limit exceeded"}\<close> exactly when the count after the increment exceeds
  60. So, when a request of caller \<open>k\<close> at time \<open>t0\<close> opens a window and the caller's further
  requests come within 60 seconds of \<open>t0\<close> (requests of other callers may come in
  between), the caller's first 60 requests pass and every later one, the 61st first, is
  answered 429; and the caller's first request after the window has elapsed passes.
\<close>

theorem rate_limit_fixed_window:
  assumes opens: "hits k = None \<or> (\<exists>e. hits k = Some e \<and> t0 - ts e > 60000)"
    and k: "ip r0 = k"
    and inw: "\<forall>(t, r) \<in> set rs. ip r = k \<longrightarrow> t - t0 \<le> 60000"
    and after: "ip r1 = k" "t1 - t0 > 60000"
  shows "rate_limit h now req =
          (let e0 = (case h (ip req) of None \<Rightarrow> \<lparr> count = 0, ts = now \<rparr> | Some e \<Rightarrow> e);
               elapsed = (now - ts e0 > 60000);
               c = (if elapsed then 0 else count e0) + 1
           in (if c > 60
               then Respond \<lparr> status = 429, body = Obj [(''error'', Str ''Rate limit exceeded'')] \<rparr>
               else Next,
               h(ip req \<mapsto> \<lparr> count = c, ts = (if elapsed then now else ts e0) \<rparr>)))
       \<and> (\<forall>i < length (from_caller k ((t0, r0) # rs)).
             answers_to k ((t0, r0) # rs) (fst (rate_limit_all hits ((t0, r0) # rs))) ! i =
               (if i < 60 then Next
                else Respond \<lparr> status = 429, body = Obj [(''error'', Str ''Rate limit exceeded'')] \<rparr>))
       \<and> fst (rate_limit (snd (rate_limit_all hits ((t0, r0) # rs))) t1 r1) = Next"
proof (intro conjI)
  show "rate_limit h now req =
          (let e0 = (case h (ip req) of None \<Rightarrow> \<lparr> count = 0, ts = now \<rparr> | Some e \<Rightarrow> e);
               elapsed = (now - ts e0 > 60000);
               c = (if elapsed then 0 else count e0) + 1
           in (if c > 60
               then Respond \<lparr> status = 429, body = Obj [(''error'', Str ''Rate limit exceeded'')] \<rparr>
               else Next,
               h(ip req \<mapsto> \<lparr> count = c, ts = (if elapsed then now else ts e0) \<rparr>)))"
    by (cases "h (ip req)")
       (auto simp: rate_limit_def Let_def WINDOW_MS_def MAX_REQS_def rate_limited_def
          res_status_json_def)
next
  have opens': "hits k = None \<or> (\<exists>e. hits k = Some e \<and> t0 - ts e > WINDOW_MS)"
    using opens by (simp add: WINDOW_MS_def)
  have inw': "\<forall>(t, r) \<in> set rs. ip r = k \<longrightarrow> t - t0 \<le> WINDOW_MS"
    using inw by (simp add: WINDOW_MS_def)
  note run = opened_run [of hits k t0 r0 rs, OF opens' k inw']
  show "\<forall>i < length (from_caller k ((t0, r0) # rs)).
             answers_to k ((t0, r0) # rs) (fst (rate_limit_all hits ((t0, r0) # rs))) ! i =
               (if i < 60 then Next
                else Respond \<lparr> status = 429, body = Obj [(''error'', Str ''Rate limit exceeded'')] \<rparr>)"
  proof (intro allI impI)
    fix i assume "i < length (from_caller k ((t0, r0) # rs))"
    then have i: "i < Suc (length (from_caller k rs))" using k by (simp add: from_caller_Cons)
    have "map (\<lambda>i. verdict (int i)) [1..<Suc (Suc (length (from_caller k rs)))] ! i
            = verdict (int (1 + i))"
      using i by (simp only: nth_map_upt diff_Suc_1 One_nat_def diff_Suc_Suc diff_zero)
    then show "answers_to k ((t0, r0) # rs) (fst (rate_limit_all hits ((t0, r0) # rs))) ! i =
               (if i < 60 then Next
                else Respond \<lparr> status = 429, body = Obj [(''error'', Str ''Rate limit exceeded'')] \<rparr>)"
      unfolding run(2)
      by (auto simp: verdict_def MAX_REQS_def rate_limited_def res_status_json_def)
  qed
  have "t1 - t0 > WINDOW_MS" using after(2) by (simp add: WINDOW_MS_def)
  then have "rate_limit (snd (rate_limit_all hits ((t0, r0) # rs))) t1 r1
        = (Next, (snd (rate_limit_all hits ((t0, r0) # rs)))(ip r1 \<mapsto> \<lparr> count = 1, ts = t1 \<rparr>))"
    using rate_limit_opens [of "snd (rate_limit_all hits ((t0, r0) # rs))" r1 t1] run(1) after(1)
    by simp
  then show "fst (rate_limit (snd (rate_limit_all hits ((t0, r0) # rs))) t1 r1) = Next"
    by simp
qed


theorem rate_limit_fixed_window_witness:
  "(Map.empty (Some ''203.0.113.7'') = None
      \<or> (\<exists>e. Map.empty (Some ''203.0.113.7'') = Some e \<and> 0 - ts e > 60000))
   \<and> ip caller_request = Some ''203.0.113.7''
   \<and> list_all (\<lambda>(t, r). t - 0 \<le> 60000) (map (\<lambda>i. (int i * 1000, caller_request)) [1..<61])
   \<and> (60001::int) - 0 > 60000
   \<and> answers_to (Some ''203.0.113.7'')
        ((0, caller_request) # map (\<lambda>i. (int i * 1000, caller_request)) [1..<61])
        (fst (rate_limit_all Map.empty
           ((0, caller_request) # map (\<lambda>i. (int i * 1000, caller_request)) [1..<61]))) ! 59 = Next
   \<and> answers_to (Some ''203.0.113.7'')
        ((0, caller_request) # map (\<lambda>i. (int i * 1000, caller_request)) [1..<61])
        (fst (rate_limit_all Map.empty
           ((0, caller_request) # map (\<lambda>i. (int i * 1000, caller_request)) [1..<61]))) ! 60
       = Respond \<lparr> status = 429, body = Obj [(''error'', Str ''Rate limit exceeded'')] \<rparr>
   \<and> fst (rate_limit (snd (rate_limit_all Map.empty
           ((0, caller_request) # map (\<lambda>i. (int i * 1000, caller_request)) [1..<61])))
         60001 caller_request) = Next"
proof -
  let ?k = "Some ''203.0.113.7''"
  let ?rs = "map (\<lambda>i. (int i * 1000, caller_request)) [1..<61]"
  have o: "(Map.empty :: hits) ?k = None \<or> (\<exists>e. (Map.empty :: hits) ?k = Some e \<and> 0 - ts e > 60000)"
    by simp
  have k: "ip caller_request = ?k" by (simp add: caller_request_def)
  have w: "\<forall>(t, r) \<in> set ?rs. ip r = ?k \<longrightarrow> t - 0 \<le> 60000" by auto
  have a: "(60001::int) - 0 > 60000" by simp
  have n: "length (from_caller ?k ((0, caller_request) # ?rs)) = 61"
    by (simp add: from_caller_def k filter_map comp_def)
  note t = rate_limit_fixed_window [of Map.empty ?k 0 caller_request ?rs caller_request 60001,
      OF o k w k a]
  from t have all: "\<forall>i < length (from_caller ?k ((0, caller_request) # ?rs)).
             answers_to ?k ((0, caller_request) # ?rs) (fst (rate_limit_all Map.empty ((0, caller_request) # ?rs))) ! i =
               (if i < 60 then Next
                else Respond \<lparr> status = 429, body = Obj [(''error'', Str ''Rate limit exceeded'')] \<rparr>)"
    by blast
  from t have last: "fst (rate_limit (snd (rate_limit_all Map.empty ((0, caller_request) # ?rs))) 60001 caller_request) = Next"
    by blast
  have a59: "answers_to ?k ((0, caller_request) # ?rs) (fst (rate_limit_all Map.empty ((0, caller_request) # ?rs))) ! 59 = Next"
    using all n by simp
  have a60: "answers_to ?k ((0, caller_request) # ?rs) (fst (rate_limit_all Map.empty ((0, caller_request) # ?rs))) ! 60
      = Respond \<lparr> status = 429, body = Obj [(''error'', Str ''Rate limit exceeded'')] \<rparr>"
    using all n by simp
  have w': "list_all (\<lambda>(t, r). t - 0 \<le> 60000) ?rs"
    by (auto simp: list_all_iff)
  show ?thesis using o k w' a a59 a60 last by blast
qed


lemma rate_limit_responds:
  assumes "rate_limit hits0 t0 r0 = (Respond resp, hits)"
  shows "\<exists>e. hits (ip r0) = Some e \<and> count e > MAX_REQS"
  using assms by (auto simp: rate_limit_def Let_def split: if_splits)

text \<open>
  C10. Within one window the stored count of a caller goes up by one at every request of
  that caller, whether the request passes or is answered 429, is left alone by the
  requests of other callers, and goes down only when the window is reset. So once a
  caller has been answered 429, the count stored is above 60, each further request of the
  caller in the same window adds one to it, and each is answered 429.
\<close>

theorem rate_limit_429_persists:
  assumes limited: "rate_limit hits0 t0 r0 = (Respond resp, hits)"
    and k: "ip r0 = k"
    and e: "hits k = Some e"
    and inw: "\<forall>(t, r) \<in> set rs. ip r = k \<longrightarrow> t - ts e \<le> 60000"
  shows "(h k = Some e' \<longrightarrow>
            snd (rate_limit h now req) k =
              Some (if ip req = k
                    then (if now - ts e' > 60000 then \<lparr> count = 1, ts = now \<rparr>
                          else e'\<lparr> count := count e' + 1 \<rparr>)
                    else e'))
       \<and> 60 < count e
       \<and> snd (rate_limit_all hits rs) k
            = Some (e\<lparr> count := count e + int (length (from_caller k rs)) \<rparr>)
       \<and> answers_to k rs (fst (rate_limit_all hits rs))
            = replicate (length (from_caller k rs))
                (Respond \<lparr> status = 429, body = Obj [(''error'', Str ''Rate limit exceeded'')] \<rparr>)"
proof (intro conjI)
  show "h k = Some e' \<longrightarrow>
            snd (rate_limit h now req) k =
              Some (if ip req = k
                    then (if now - ts e' > 60000 then \<lparr> count = 1, ts = now \<rparr>
                          else e'\<lparr> count := count e' + 1 \<rparr>)
                    else e')"
    by (auto simp: rate_limit_def Let_def WINDOW_MS_def)
next
  show c: "60 < count e"
    using rate_limit_responds [OF limited] k e by (simp add: MAX_REQS_def)
  have inw': "\<forall>(t, r) \<in> set rs. ip r = k \<longrightarrow> t - ts e \<le> WINDOW_MS"
    using inw by (simp add: WINDOW_MS_def)
  note run = in_window_run [of hits k e rs, OF e inw']
  show "snd (rate_limit_all hits rs) k
            = Some (e\<lparr> count := count e + int (length (from_caller k rs)) \<rparr>)"
    using run by simp
  have "map (\<lambda>i. verdict (count e + int i)) [1..<Suc (length (from_caller k rs))]
          = map (\<lambda>i. Respond rate_limited) [1..<Suc (length (from_caller k rs))]"
    using c by (intro map_cong refl) (simp add: verdict_def MAX_REQS_def)
  then show "answers_to k rs (fst (rate_limit_all hits rs))
            = replicate (length (from_caller k rs))
                (Respond \<lparr> status = 429, body = Obj [(''error'', Str ''Rate limit exceeded'')] \<rparr>)"
    using run by (simp add: map_replicate_const rate_limited_def res_status_json_def del: upt_Suc)
qed

theorem rate_limit_429_persists_witness:
  "rate_limit busy_hits 1000 caller_request
      = (Respond rate_limited, busy_hits(Some ''203.0.113.7'' \<mapsto> \<lparr> count = 61, ts = 0 \<rparr>))
   \<and> ip caller_request = Some ''203.0.113.7''
   \<and> (busy_hits(Some ''203.0.113.7'' \<mapsto> \<lparr> count = 61, ts = 0 \<rparr>)) (Some ''203.0.113.7'')
        = Some \<lparr> count = 61, ts = 0 \<rparr>
   \<and> list_all (\<lambda>(t, r). t - ts \<lparr> count = 61, ts = 0 \<rparr> \<le> 60000)
        [(2000, caller_request), (2500, other_request), (60000, caller_request)]
   \<and> snd (rate_limit_all (busy_hits(Some ''203.0.113.7'' \<mapsto> \<lparr> count = 61, ts = 0 \<rparr>))
            [(2000, caller_request), (2500, other_request), (60000, caller_request)])
          (Some ''203.0.113.7'') = Some \<lparr> count = 63, ts = 0 \<rparr>
   \<and> answers_to (Some ''203.0.113.7'')
        [(2000, caller_request), (2500, other_request), (60000, caller_request)]
        (fst (rate_limit_all (busy_hits(Some ''203.0.113.7'' \<mapsto> \<lparr> count = 61, ts = 0 \<rparr>))
            [(2000, caller_request), (2500, other_request), (60000, caller_request)]))
       = [Respond \<lparr> status = 429, body = Obj [(''error'', Str ''Rate limit exceeded'')] \<rparr>,
          Respond \<lparr> status = 429, body = Obj [(''error'', Str ''Rate limit exceeded'')] \<rparr>]"
proof -
  let ?k = "Some ''203.0.113.7''"
  let ?e = "\<lparr> count = 61, ts = 0 \<rparr>"
  let ?rs = "[(2000, caller_request), (2500, other_request), (60000, caller_request)]"
  have k: "ip caller_request = ?k" by (simp add: caller_request_def)
  have o: "ip other_request \<noteq> ?k" by (simp add: other_request_def)
  have l: "rate_limit busy_hits 1000 caller_request = (Respond rate_limited, busy_hits(?k \<mapsto> ?e))"
    by (simp add: rate_limit_def busy_hits_def k Let_def WINDOW_MS_def MAX_REQS_def)
  have e: "(busy_hits(?k \<mapsto> ?e)) ?k = Some ?e" by simp
  have w: "\<forall>(t, r) \<in> set ?rs. ip r = ?k \<longrightarrow> t - ts ?e \<le> 60000" by simp
  have n: "length (from_caller ?k ?rs) = 2" by (simp add: from_caller_def k o)
  note t = rate_limit_429_persists [of busy_hits 1000 caller_request rate_limited
      "busy_hits(?k \<mapsto> ?e)" ?k ?e ?rs, OF l k e w]
  from t have c: "snd (rate_limit_all (busy_hits(?k \<mapsto> ?e)) ?rs) ?k
            = Some (?e\<lparr> count := count ?e + int (length (from_caller ?k ?rs)) \<rparr>)"
    by blast
  from t have a: "answers_to ?k ?rs (fst (rate_limit_all (busy_hits(?k \<mapsto> ?e)) ?rs))
            = replicate (length (from_caller ?k ?rs))
                (Respond \<lparr> status = 429, body = Obj [(''error'', Str ''Rate limit exceeded'')] \<rparr>)"
    by blast
  have c': "snd (rate_limit_all (busy_hits(?k \<mapsto> ?e)) ?rs) ?k = Some \<lparr> count = 63, ts = 0 \<rparr>"
    unfolding c n by simp
  have a': "answers_to ?k ?rs (fst (rate_limit_all (busy_hits(?k \<mapsto> ?e)) ?rs))
       = [Respond \<lparr> status = 429, body = Obj [(''error'', Str ''Rate limit exceeded'')] \<rparr>,
          Respond \<lparr> status = 429, body = Obj [(''error'', Str ''Rate limit exceeded'')] \<rparr>]"
    unfolding a n by (simp add: numeral_2_eq_2)
  have w': "list_all (\<lambda>(t, r). t - ts ?e \<le> 60000) ?rs" by simp
  show ?thesis using l k e w' c' a' by blast
qed

section \<open>The proxy endpoints: properties\<close>

lemma try_catch_response:
  "response (try_catch call attempt msg fallback) = (case attempt of Inl e \<Rightarrow> fallback | Inr res \<Rightarrow> res)"
  by (simp add: try_catch_def split: sum.splits)

lemma ch_error_text:
  "r_text r = Inr t \<Longrightarrow>
   ch_error r = Inr \<lparr> status = r_status r, body = Obj [(''error'', Str ''CH error''), (''detail'', Str t)] \<rparr>"
  by (simp add: ch_error_def andThen_def res_status_json_def)

text \<open>The search handler once its term is a string of three characters or more.\<close>

lemma search_handler_call:
  assumes "query_string (query req ''q'') = Inr q" and "3 \<le> length q"
  shows "search_handler cfg fetch req =
           Inr (try_catch (search_call cfg q) (search_try fetch (search_call cfg q))
                  ''CH search failed'' (res_status_json 500 (Obj [(''items'', Arr [])])))"
  using assms by (auto simp: search_handler_def andThen_def)

text \<open>
  When converting the term to a string throws, the handler ends with the exception: no
  response is sent and no call is made.
\<close>

lemma search_handler_throws:
  "query_string (query req ''q'') = Inl e \<Longrightarrow> search_handler cfg fetch req = Inl e"
  by (simp add: search_handler_def andThen_def)

lemma search_handler_throws_example:
  "search_handler example_config upstream_acme object_request = Inl TypeError"
  by (simp add: search_handler_def andThen_def object_request_def query_string_def)

text \<open>
  C4. When the upstream answers with a status outside 200..299 and body text \<open>t\<close>, each of
  the three proxy endpoints (search, officers, details) reads the body as text and answers
  with the same status and the body \<^verbatim>\<open>{error: "CH error", detail: t}\<close>.
\<close>

theorem upstream_error_forwarded:
  assumes "\<not> r_ok r" and "r_text r = Inr t"
  shows "(query_string (query req ''q'') = Inr q \<and> 3 \<le> length q
          \<and> fetch (search_call cfg q) = Inr r \<longrightarrow>
            search_handler cfg fetch req =
              Inr \<lparr> response = \<lparr> status = r_status r,
                       body = Obj [(''error'', Str ''CH error''), (''detail'', Str t)] \<rparr>,
                    calls = [search_call cfg q], logged = [] \<rparr>)
       \<and> (param_string (params req ''number'') \<noteq> []
          \<and> fetch (officers_call cfg (param_string (params req ''number''))) = Inr r \<longrightarrow>
            response (officers_handler cfg fetch req) =
              \<lparr> status = r_status r, body = Obj [(''error'', Str ''CH error''), (''detail'', Str t)] \<rparr>)
       \<and> (param_string (params req ''number'') \<noteq> []
          \<and> fetch (details_call cfg (param_string (params req ''number''))) = Inr r \<longrightarrow>
            response (details_handler cfg fetch req) =
              \<lparr> status = r_status r, body = Obj [(''error'', Str ''CH error''), (''detail'', Str t)] \<rparr>)"
proof (intro conjI impI)
  assume a: "query_string (query req ''q'') = Inr q \<and> 3 \<le> length q
          \<and> fetch (search_call cfg q) = Inr r"
  then have "search_try fetch (search_call cfg q) = ch_error r"
    using assms by (simp add: search_try_def andThen_def)
  then show "search_handler cfg fetch req =
              Inr \<lparr> response = \<lparr> status = r_status r,
                       body = Obj [(''error'', Str ''CH error''), (''detail'', Str t)] \<rparr>,
                    calls = [search_call cfg q], logged = [] \<rparr>"
    using a assms by (simp add: search_handler_call ch_error_text try_catch_def)
next
  assume "param_string (params req ''number'') \<noteq> []
          \<and> fetch (officers_call cfg (param_string (params req ''number''))) = Inr r"
  then show "response (officers_handler cfg fetch req) =
              \<lparr> status = r_status r, body = Obj [(''error'', Str ''CH error''), (''detail'', Str t)] \<rparr>"
    using assms
    by (auto simp: officers_handler_def Let_def try_catch_response officers_try_def andThen_def
          ch_error_text)
next
  assume "param_string (params req ''number'') \<noteq> []
          \<and> fetch (details_call cfg (param_string (params req ''number''))) = Inr r"
  then show "response (details_handler cfg fetch req) =
              \<lparr> status = r_status r, body = Obj [(''error'', Str ''CH error''), (''detail'', Str t)] \<rparr>"
    using assms
    by (auto simp: details_handler_def Let_def try_catch_response details_try_def andThen_def
          ch_error_text)
qed

lemma example_inputs:
  "query_string (query caller_request ''q'') = Inr ''acme''"
  "param_string (params caller_request ''number'') = ''00000006''"
  by (simp_all add: caller_request_def query_string_def param_string_def)

theorem upstream_error_forwarded_witness:
  "\<not> r_ok \<lparr> r_status = 404, r_text = Inr ''not found'', r_json = Inl (FetchFailure ''invalid json'') \<rparr>
   \<and> query_string (query caller_request ''q'') = Inr ''acme''
   \<and> 3 \<le> length ''acme''
   \<and> param_string (params caller_request ''number'') \<noteq> []
   \<and> search_handler example_config upstream_404 caller_request =
        Inr \<lparr> response = \<lparr> status = 404,
                 body = Obj [(''error'', Str ''CH error''), (''detail'', Str ''not found'')] \<rparr>,
              calls = [search_call example_config ''acme''], logged = [] \<rparr>
   \<and> response (officers_handler example_config upstream_404 caller_request) =
        \<lparr> status = 404, body = Obj [(''error'', Str ''CH error''), (''detail'', Str ''not found'')] \<rparr>
   \<and> response (details_handler example_config upstream_404 caller_request) =
        \<lparr> status = 404, body = Obj [(''error'', Str ''CH error''), (''detail'', Str ''not found'')] \<rparr>"
proof -
  let ?r = "\<lparr> r_status = 404, r_text = Inr ''not found'', r_json = Inl (FetchFailure ''invalid json'') \<rparr>"
  have ok: "\<not> r_ok ?r" by (simp add: r_ok_def)
  have tx: "r_text ?r = Inr ''not found''" by simp
  have f: "\<And>call. upstream_404 call = Inr ?r" by (simp add: upstream_404_def)
  show ?thesis
    using upstream_error_forwarded [OF ok tx, of caller_request "''acme''" upstream_404 example_config]
      ok f
    by (simp add: example_inputs)
qed

text \<open>
  C8. When the outbound call fails at the transport level (the call itself fails, or the
  body cannot be parsed as JSON, or cannot be read), the endpoint answers 500 with its own
  fallback body: \<^verbatim>\<open>{items: []}\<close> for search and officers,
  \<^verbatim>\<open>{error: "Failed to fetch company details"}\<close> for details.
\<close>

theorem transport_failure_fallback:
  "(query_string (query req ''q'') = Inr q \<and> 3 \<le> length q
      \<and> transport_failure fetch (search_call cfg q) \<longrightarrow>
        sent (search_handler cfg fetch req) = Some \<lparr> status = 500, body = Obj [(''items'', Arr [])] \<rparr>)
   \<and> (param_string (params req ''number'') \<noteq> []
      \<and> transport_failure fetch (officers_call cfg (param_string (params req ''number''))) \<longrightarrow>
        response (officers_handler cfg fetch req) = \<lparr> status = 500, body = Obj [(''items'', Arr [])] \<rparr>)
   \<and> (param_string (params req ''number'') \<noteq> []
      \<and> transport_failure fetch (details_call cfg (param_string (params req ''number''))) \<longrightarrow>
        response (details_handler cfg fetch req) =
          \<lparr> status = 500, body = Obj [(''error'', Str ''Failed to fetch company details'')] \<rparr>)"
proof (intro conjI impI)
  assume a: "query_string (query req ''q'') = Inr q \<and> 3 \<le> length q
      \<and> transport_failure fetch (search_call cfg q)"
  then have "isl (search_try fetch (search_call cfg q))"
    by (auto simp: search_try_def andThen_def transport_failure_def ch_error_def isl_def
          split: sum.splits if_splits)
  then show "sent (search_handler cfg fetch req) = Some \<lparr> status = 500, body = Obj [(''items'', Arr [])] \<rparr>"
    using a
    by (auto simp: search_handler_call sent_def try_catch_response res_status_json_def isl_def)
next
  assume "param_string (params req ''number'') \<noteq> []
      \<and> transport_failure fetch (officers_call cfg (param_string (params req ''number'')))"
  then show "response (officers_handler cfg fetch req) = \<lparr> status = 500, body = Obj [(''items'', Arr [])] \<rparr>"
    by (auto simp: officers_handler_def Let_def try_catch_response officers_try_def andThen_def
          transport_failure_def ch_error_def res_status_json_def isl_def
          split: sum.splits if_splits)
next
  assume "param_string (params req ''number'') \<noteq> []
      \<and> transport_failure fetch (details_call cfg (param_string (params req ''number'')))"
  then show "response (details_handler cfg fetch req) =
          \<lparr> status = 500, body = Obj [(''error'', Str ''Failed to fetch company details'')] \<rparr>"
    by (auto simp: details_handler_def Let_def try_catch_response details_try_def andThen_def
          transport_failure_def ch_error_def res_status_json_def isl_def
          split: sum.splits if_splits)
qed

theorem transport_failure_fallback_witness:
  "query_string (query caller_request ''q'') = Inr ''acme''
   \<and> 3 \<le> length ''acme''
   \<and> param_string (params caller_request ''number'') \<noteq> []
   \<and> transport_failure upstream_down (search_call example_config ''acme'')
   \<and> transport_failure upstream_garbled (search_call example_config ''acme'')
   \<and> transport_failure upstream_garbled
        (officers_call example_config (param_string (params caller_request ''number'')))
   \<and> transport_failure upstream_garbled
        (details_call example_config (param_string (params caller_request ''number'')))
   \<and> sent (search_handler example_config upstream_down caller_request)
        = Some \<lparr> status = 500, body = Obj [(''items'', Arr [])] \<rparr>
   \<and> sent (search_handler example_config upstream_garbled caller_request)
        = Some \<lparr> status = 500, body = Obj [(''items'', Arr [])] \<rparr>
   \<and> response (officers_handler example_config upstream_garbled caller_request)
        = \<lparr> status = 500, body = Obj [(''items'', Arr [])] \<rparr>
   \<and> response (details_handler example_config upstream_garbled caller_request)
        = \<lparr> status = 500, body = Obj [(''error'', Str ''Failed to fetch company details'')] \<rparr>"
proof -
  have d: "\<And>call. transport_failure upstream_down call"
    by (simp add: transport_failure_def upstream_down_def)
  have g: "\<And>call. transport_failure upstream_garbled call"
    by (simp add: transport_failure_def upstream_garbled_def r_ok_def)
  have i: "query_string (query caller_request ''q'') = Inr ''acme''" "3 \<le> length ''acme''"
      "param_string (params caller_request ''number'') \<noteq> []"
    by (simp_all add: example_inputs)
  have s: "sent (search_handler example_config upstream_down caller_request)
        = Some \<lparr> status = 500, body = Obj [(''items'', Arr [])] \<rparr>"
    using transport_failure_fallback [of caller_request "''acme''" upstream_down example_config] i d
    by blast
  have s': "sent (search_handler example_config upstream_garbled caller_request)
        = Some \<lparr> status = 500, body = Obj [(''items'', Arr [])] \<rparr>"
    using transport_failure_fallback [of caller_request "''acme''" upstream_garbled example_config] i g
    by blast
  have o: "response (officers_handler example_config upstream_garbled caller_request)
        = \<lparr> status = 500, body = Obj [(''items'', Arr [])] \<rparr>"
    using transport_failure_fallback [of caller_request "''acme''" upstream_garbled example_config] i g
    by blast
  have c: "response (details_handler example_config upstream_garbled caller_request)
        = \<lparr> status = 500, body = Obj [(''error'', Str ''Failed to fetch company details'')] \<rparr>"
    using transport_failure_fallback [of caller_request "''acme''" upstream_garbled example_config] i g
    by blast
  show ?thesis using i d g s s' o c by blast
qed

lemma search_item_projected:
  "x \<noteq> Null \<Longrightarrow> x \<noteq> Undefined \<Longrightarrow> search_item x = Inr (projected x)"
  by (cases x) (simp_all add: search_item_def projected_def andThen_def)

lemma search_item_throws:
  "x = Null \<or> x = Undefined \<Longrightarrow> search_item x = Inl TypeError"
  by (auto simp: search_item_def andThen_def)

lemma mapE_search_item:
  "Null \<notin> set xs \<Longrightarrow> Undefined \<notin> set xs \<Longrightarrow> mapE search_item xs = Inr (map projected xs)"
  by (induction xs) (auto simp: search_item_projected andThen_def)

lemma mapE_search_item_throws:
  "Null \<in> set xs \<or> Undefined \<in> set xs \<Longrightarrow> mapE search_item xs = Inl TypeError"
proof (induction xs)
  case Nil
  then show ?case by simp
next
  case (Cons x xs)
  show ?case
  proof (cases "x = Null \<or> x = Undefined")
    case True
    then show ?thesis by (simp add: search_item_throws andThen_def)
  next
    case False
    then have "mapE search_item xs = Inl TypeError" using Cons by auto
    then show ?thesis using False by (simp add: search_item_projected andThen_def)
  qed
qed

lemma getProp_field:
  "data \<noteq> Null \<Longrightarrow> data \<noteq> Undefined \<Longrightarrow> name \<noteq> ''length'' \<Longrightarrow> getProp data name = Inr (field data name)"
  by (cases data) simp_all

lemma js_map_falsy:
  "\<not> truthy v \<Longrightarrow> js_map f (js_or v (Arr [])) = Inr (Arr [])"
  by (simp add: js_or_def andThen_def)

lemma js_map_not_array:
  "truthy v \<Longrightarrow> \<forall>xs. v \<noteq> Arr xs \<Longrightarrow> js_map f (js_or v (Arr [])) = Inl TypeError"
  by (cases v) (simp_all add: js_or_def)

text \<open>
  C5, as amended. For a successful upstream search response with parsed body \<open>data\<close>, one
  outbound call having been made:
  when \<open>data\<close> is neither \<^verbatim>\<open>null\<close> nor \<^verbatim>\<open>undefined\<close> and its \<^verbatim>\<open>items\<close> is an array
  with no \<^verbatim>\<open>null\<close> or \<^verbatim>\<open>undefined\<close> element, the answer is 200 with each item projected
  to exactly the four fields \<^verbatim>\<open>title\<close>, \<^verbatim>\<open>company_number\<close>, \<^verbatim>\<open>company_status\<close>,
  \<^verbatim>\<open>address_snippet\<close> (copied when the item is an object that has the field,
  \<^verbatim>\<open>undefined\<close> otherwise, nothing else), and nothing is logged;
  when \<open>data\<close> is neither \<^verbatim>\<open>null\<close> nor \<^verbatim>\<open>undefined\<close> and its \<^verbatim>\<open>items\<close> is missing or
  another falsy value, the answer is 200 with \<^verbatim>\<open>{items: []}\<close>, and nothing is logged;
  when \<open>data\<close> is \<^verbatim>\<open>null\<close> or \<^verbatim>\<open>undefined\<close>, or \<^verbatim>\<open>items\<close> is an array with a \<^verbatim>\<open>null\<close>
  or \<^verbatim>\<open>undefined\<close> element, or \<^verbatim>\<open>items\<close> is truthy and not an array, the answer is 500
  with \<^verbatim>\<open>{items: []}\<close>, and a TypeError is logged.
\<close>

theorem search_projection:
  assumes q: "query_string (query req ''q'') = Inr q" "3 \<le> length q"
    and f: "fetch (search_call cfg q) = Inr r"
    and ok: "r_ok r"
    and j: "r_json r = Inr data"
  shows "(data \<noteq> Null \<and> data \<noteq> Undefined
          \<and> field data ''items'' = Arr xs \<and> Null \<notin> set xs \<and> Undefined \<notin> set xs \<longrightarrow>
            search_handler cfg fetch req =
              Inr \<lparr> response = \<lparr> status = 200, body = Obj [(''items'', Arr (map projected xs))] \<rparr>,
                    calls = [search_call cfg q], logged = [] \<rparr>)
       \<and> (data \<noteq> Null \<and> data \<noteq> Undefined \<and> \<not> truthy (field data ''items'') \<longrightarrow>
            search_handler cfg fetch req =
              Inr \<lparr> response = \<lparr> status = 200, body = Obj [(''items'', Arr [])] \<rparr>,
                    calls = [search_call cfg q], logged = [] \<rparr>)
       \<and> (data = Null \<or> data = Undefined
          \<or> (field data ''items'' = Arr xs \<and> (Null \<in> set xs \<or> Undefined \<in> set xs))
          \<or> (truthy (field data ''items'') \<and> (\<forall>ys. field data ''items'' \<noteq> Arr ys)) \<longrightarrow>
            search_handler cfg fetch req =
              Inr \<lparr> response = \<lparr> status = 500, body = Obj [(''items'', Arr [])] \<rparr>,
                    calls = [search_call cfg q], logged = [(''CH search failed'', TypeError)] \<rparr>)"
proof -
  have h: "search_handler cfg fetch req
            = Inr (try_catch (search_call cfg q) (search_try fetch (search_call cfg q))
                ''CH search failed'' (res_status_json 500 (Obj [(''items'', Arr [])])))"
    using q by (rule search_handler_call)
  have t0: "search_try fetch (search_call cfg q)
            = andThen (getProp data ''items'') (\<lambda>its.
              andThen (js_map search_item (js_or its (Arr []))) (\<lambda>items.
                Inr (res_json (Obj [(''items'', items)]))))"
    using f ok j by (simp add: search_try_def andThen_def)
  have t: "data \<noteq> Null \<Longrightarrow> data \<noteq> Undefined \<Longrightarrow>
          search_try fetch (search_call cfg q)
            = andThen (js_map search_item (js_or (field data ''items'') (Arr [])))
                (\<lambda>items. Inr (res_json (Obj [(''items'', items)])))"
    unfolding t0 by (simp add: getProp_field andThen_def)
  show ?thesis
  proof (intro conjI impI)
    assume a: "data \<noteq> Null \<and> data \<noteq> Undefined
          \<and> field data ''items'' = Arr xs \<and> Null \<notin> set xs \<and> Undefined \<notin> set xs"
    then have "js_map search_item (js_or (field data ''items'') (Arr [])) = Inr (Arr (map projected xs))"
      by (simp add: js_or_def mapE_search_item andThen_def)
    then show "search_handler cfg fetch req =
              Inr \<lparr> response = \<lparr> status = 200, body = Obj [(''items'', Arr (map projected xs))] \<rparr>,
                    calls = [search_call cfg q], logged = [] \<rparr>"
      unfolding h using t a by (simp add: try_catch_def andThen_def res_json_def res_status_json_def)
  next
    assume a: "data \<noteq> Null \<and> data \<noteq> Undefined \<and> \<not> truthy (field data ''items'')"
    then have "js_map search_item (js_or (field data ''items'') (Arr [])) = Inr (Arr [])"
      by (simp add: js_map_falsy)
    then show "search_handler cfg fetch req =
              Inr \<lparr> response = \<lparr> status = 200, body = Obj [(''items'', Arr [])] \<rparr>,
                    calls = [search_call cfg q], logged = [] \<rparr>"
      unfolding h using t a by (simp add: try_catch_def andThen_def res_json_def res_status_json_def)
  next
    assume a: "data = Null \<or> data = Undefined
          \<or> (field data ''items'' = Arr xs \<and> (Null \<in> set xs \<or> Undefined \<in> set xs))
          \<or> (truthy (field data ''items'') \<and> (\<forall>ys. field data ''items'' \<noteq> Arr ys))"
    have "search_try fetch (search_call cfg q) = Inl TypeError"
    proof (cases "data = Null \<or> data = Undefined")
      case True
      then show ?thesis unfolding t0 by (auto simp: andThen_def)
    next
      case False
      then have d: "data \<noteq> Null" "data \<noteq> Undefined" by simp_all
      from a False consider
          (null_item) "field data ''items'' = Arr xs" "Null \<in> set xs \<or> Undefined \<in> set xs"
        | (not_array) "truthy (field data ''items'')" "\<forall>ys. field data ''items'' \<noteq> Arr ys"
        by blast
      then have "js_map search_item (js_or (field data ''items'') (Arr [])) = Inl TypeError"
      proof cases
        case null_item
        then show ?thesis by (simp add: js_or_def mapE_search_item_throws andThen_def)
      next
        case not_array
        then show ?thesis by (rule js_map_not_array)
      qed
      then show ?thesis using t [OF d] by (simp add: andThen_def)
    qed
    then show "search_handler cfg fetch req =
              Inr \<lparr> response = \<lparr> status = 500, body = Obj [(''items'', Arr [])] \<rparr>,
                    calls = [search_call cfg q], logged = [(''CH search failed'', TypeError)] \<rparr>"
      unfolding h by (simp add: try_catch_def res_status_json_def)
  qed
qed

theorem search_projection_witness:
  "query_string (query caller_request ''q'') = Inr ''acme''
   \<and> 3 \<le> length ''acme''
   \<and> search_handler example_config upstream_acme caller_request =
       Inr \<lparr> response = \<lparr> status = 200,
                body = Obj [(''items'', Arr [Obj [(''title'', Str ''Acme Ltd''),
                      (''company_number'', Str ''123''), (''company_status'', Str ''active''),
                      (''address_snippet'', Str ''1 Road'')]])] \<rparr>,
             calls = [search_call example_config ''acme''], logged = [] \<rparr>
   \<and> search_handler example_config upstream_no_items caller_request =
       Inr \<lparr> response = \<lparr> status = 200, body = Obj [(''items'', Arr [])] \<rparr>,
             calls = [search_call example_config ''acme''], logged = [] \<rparr>
   \<and> search_handler example_config upstream_mixed caller_request =
       Inr \<lparr> response = \<lparr> status = 500, body = Obj [(''items'', Arr [])] \<rparr>,
             calls = [search_call example_config ''acme''],
             logged = [(''CH search failed'', TypeError)] \<rparr>"
proof -
  let ?item = "Obj [(''title'', Str ''Acme Ltd''),
                      (''company_number'', Str ''123''), (''company_status'', Str ''active''),
                      (''address_snippet'', Str ''1 Road''), (''kind'', Str ''company'')]"
  let ?data = "Obj [(''items'', Arr [?item]), (''total_results'', Num 1)]"
  let ?r = "\<lparr> r_status = 200, r_text = Inr ''(search results)'', r_json = Inr ?data \<rparr>"
  let ?bare = "Obj [(''total_results'', Num 0)]"
  let ?rb = "\<lparr> r_status = 200, r_text = Inr ''(search results)'', r_json = Inr ?bare \<rparr>"
  let ?mixed = "Obj [(''items'', Arr [Obj [(''title'', Str ''Acme Ltd'')], Null])]"
  let ?rm = "\<lparr> r_status = 200, r_text = Inr ''(search results)'', r_json = Inr ?mixed \<rparr>"
  have q: "query_string (query caller_request ''q'') = Inr ''acme''" "3 \<le> length ''acme''"
    by (simp_all add: example_inputs)
  have f: "upstream_acme (search_call example_config ''acme'') = Inr ?r"
    by (simp add: upstream_acme_def)
  have fb: "upstream_no_items (search_call example_config ''acme'') = Inr ?rb"
    by (simp add: upstream_no_items_def)
  have fm: "upstream_mixed (search_call example_config ''acme'') = Inr ?rm"
    by (simp add: upstream_mixed_def)
  have ok: "r_ok ?r" "r_ok ?rb" "r_ok ?rm" by (simp_all add: r_ok_def)
  have "search_handler example_config upstream_acme caller_request =
       Inr \<lparr> response = \<lparr> status = 200, body = Obj [(''items'', Arr (map projected [?item]))] \<rparr>,
             calls = [search_call example_config ''acme''], logged = [] \<rparr>"
    using search_projection [of caller_request "''acme''" upstream_acme example_config ?r ?data
        "[?item]", OF q f ok(1)] by simp
  moreover have "search_handler example_config upstream_no_items caller_request =
       Inr \<lparr> response = \<lparr> status = 200, body = Obj [(''items'', Arr [])] \<rparr>,
             calls = [search_call example_config ''acme''], logged = [] \<rparr>"
    using search_projection [of caller_request "''acme''" upstream_no_items example_config ?rb ?bare,
        OF q fb ok(2)] by simp
  moreover have "search_handler example_config upstream_mixed caller_request =
       Inr \<lparr> response = \<lparr> status = 500, body = Obj [(''items'', Arr [])] \<rparr>,
             calls = [search_call example_config ''acme''],
             logged = [(''CH search failed'', TypeError)] \<rparr>"
    using search_projection [of caller_request "''acme''" upstream_mixed example_config ?rm ?mixed
        "[Obj [(''title'', Str ''Acme Ltd'')], Null]", OF q fm ok(3)] by simp
  ultimately show ?thesis using q by (simp add: projected_def)
qed

text \<open>
  C5 as stated fails: a successful response whose \<^verbatim>\<open>items\<close> array holds \<^verbatim>\<open>null\<close> is not
  projected but answered 500 (reading a property of \<^verbatim>\<open>null\<close> throws inside the
  \<^verbatim>\<open>try\<close>), and so is a successful response whose body is \<^verbatim>\<open>null\<close>, which has no
  \<^verbatim>\<open>items\<close> array.
\<close>

theorem search_projection_counterexample:
  "sent (search_handler example_config upstream_null_item caller_request)
     = Some \<lparr> status = 500, body = Obj [(''items'', Arr [])] \<rparr>
   \<and> sent (search_handler example_config upstream_null_item caller_request)
     \<noteq> Some \<lparr> status = 200, body = Obj [(''items'', Arr [projected Null])] \<rparr>
   \<and> sent (search_handler example_config upstream_null caller_request)
     = Some \<lparr> status = 500, body = Obj [(''items'', Arr [])] \<rparr>
   \<and> sent (search_handler example_config upstream_null caller_request)
     \<noteq> Some \<lparr> status = 200, body = Obj [(''items'', Arr [])] \<rparr>"
  by (simp add: search_handler_def sent_def example_inputs try_catch_response search_try_def
        andThen_def upstream_null_item_def upstream_null_def r_ok_def js_or_def search_item_def
        res_status_json_def)

section \<open>The origin guard: properties\<close>

text \<open>
  C9, as amended. The origin guard permits a request if and only if the allow-list is
  empty, or the Origin header is absent or empty, or its value is in the allow-list;
  otherwise it rejects with the error \<^verbatim>\<open>Not allowed by CORS: \<close> followed by the origin.
\<close>

theorem origin_guard:
  "(corsOptions_origin cfg origin = Cb_allow True \<longleftrightarrow>
      ORIGINS cfg = [] \<or> origin = None \<or> origin = Some []
      \<or> (\<exists>v. origin = Some v \<and> v \<in> set (ORIGINS cfg)))
   \<and> (corsOptions_origin cfg origin \<noteq> Cb_allow True \<longrightarrow>
        (\<exists>v. origin = Some v \<and> corsOptions_origin cfg origin = Cb_error (''Not allowed by CORS: '' @ v)))"
  by (cases origin) (auto simp: corsOptions_origin_def of_opt_def)

theorem origin_guard_witness:
  "corsOptions_origin example_config (Some ''https://app.example'') = Cb_allow True
   \<and> corsOptions_origin example_config None = Cb_allow True
   \<and> corsOptions_origin (example_config\<lparr> ORIGINS := [] \<rparr>) (Some ''https://evil.example'') = Cb_allow True
   \<and> corsOptions_origin example_config (Some ''https://evil.example'') \<noteq> Cb_allow True
   \<and> corsOptions_origin example_config (Some ''https://evil.example'')
        = Cb_error ''Not allowed by CORS: https://evil.example''"
  using origin_guard [of example_config "Some ''https://app.example''"]
    origin_guard [of example_config None]
    origin_guard [of "example_config\<lparr> ORIGINS := [] \<rparr>" "Some ''https://evil.example''"]
    origin_guard [of example_config "Some ''https://evil.example''"]
  by (simp add: example_config_def)

text \<open>
  C9 as stated fails: an Origin header that is present with an empty value is permitted
  although the allow-list is not empty and does not contain it.
\<close>

theorem origin_guard_counterexample:
  "corsOptions_origin example_config (Some []) = Cb_allow True
   \<and> \<not> (ORIGINS example_config = [] \<or> Some [] = (None :: string option)
         \<or> [] \<in> set (ORIGINS example_config))"
  by (simp add: corsOptions_origin_def example_config_def of_opt_def)

section \<open>Configuration: properties\<close>

text \<open>The example configuration is what the loader makes of an environment.\<close>

lemma load_config_example:
  "load_config [''CORS_ORIGINS'' \<mapsto> ''https://app.example'', ''SHARED_SECRET'' \<mapsto> ''s3cret'',
                ''AUTH_HEADER'' \<mapsto> ''X-Ch-Secret'', ''CH_API_KEY'' \<mapsto> ''key''] = example_config"
  by code_simp

text \<open>The loaded allow-list never holds the empty string, and an unset secret loads as empty.\<close>

lemma load_config_origins_nonempty: "[] \<notin> set (ORIGINS (load_config env))"
  by (simp add: load_config_def)

lemma load_config_no_secret:
  "env ''SHARED_SECRET'' = None \<or> env ''SHARED_SECRET'' = Some [] \<Longrightarrow> SHARED_SECRET (load_config env) = []"
  by (auto simp: load_config_def env_or_def)

end
